theory Spec2Isabelle
  imports Complex_Main
begin

section \<open>JavaScript strings and values\<close>

text \<open>
  A JavaScript string is a sequence of 16-bit code units. The model has the strings whose
  code units lie in the range U+0000 to U+00FF: such a string is a \<^typ>\<open>string\<close>, the list
  of its code units, each a \<^typ>\<open>char\<close>, and its \<^verbatim>\<open>length\<close> is the length of the list.
  White space and lower case are defined on this whole range, as JavaScript defines them
  there. A JavaScript number is modelled as a \<^typ>\<open>real\<close>: the arithmetic of the cost and
  temperature formulas is exact, the rounding of IEEE doubles is not part of the model. An
  optional value (\<^verbatim>\<open>x?: T\<close>, \<^verbatim>\<open>undefined\<close>) is an \<^typ>\<open>'a option\<close>.
\<close>

definition newline :: char where
  "newline = CHR 0x0A"

text \<open>White space as \<^verbatim>\<open>String.prototype.trim\<close> and the regular expression class
  \<^verbatim>\<open>\s\<close> see it (the white space and line terminator code points of ECMAScript), in
  the range of the model: tab, line feed, vertical tab, form feed, carriage return, space
  and the no-break space U+00A0.\<close>

definition is_space :: "char \<Rightarrow> bool" where
  "is_space c = (c = CHR 0x09 \<or> c = CHR 0x0A \<or> c = CHR 0x0B \<or> c = CHR 0x0C
                 \<or> c = CHR 0x0D \<or> c = CHR 0x20 \<or> c = CHR 0xA0)"

definition trim :: "string \<Rightarrow> string" where
  "trim s = rev (dropWhile is_space (rev (dropWhile is_space s)))"

text \<open>\<^verbatim>\<open>s.split('\n')\<close>: the pieces between line feeds; never the empty list.\<close>

fun split_newline :: "string \<Rightarrow> string list" where
  "split_newline [] = [[]]"
| "split_newline (c # cs) =
     (if c = newline then [] # split_newline cs
      else (case split_newline cs of
              [] \<Rightarrow> [[c]]
            | l # ls \<Rightarrow> (c # l) # ls))"

text \<open>\<^verbatim>\<open>s.includes(k)\<close>: \<open>k\<close> occurs in \<open>s\<close> as a contiguous piece.\<close>

fun starts_with :: "string \<Rightarrow> string \<Rightarrow> bool" where
  "starts_with s [] = True"
| "starts_with [] (k # ks) = False"
| "starts_with (c # cs) (k # ks) = (c = k \<and> starts_with cs ks)"

fun str_includes :: "string \<Rightarrow> string \<Rightarrow> bool" where
  "str_includes [] k = starts_with [] k"
| "str_includes (c # cs) k = (starts_with (c # cs) k \<or> str_includes cs k)"

text \<open>
  \<^verbatim>\<open>toLowerCase\<close>: the letters A to Z and the upper case letters U+00C0 to U+00DE
  (all of that block but the multiplication sign U+00D7) move up by 32; every other code
  unit of the range stays.
\<close>

definition lower_char :: "char \<Rightarrow> char" where
  "lower_char c =
     (let n = of_char c :: nat
      in if (65 \<le> n \<and> n \<le> 90) \<or> (192 \<le> n \<and> n \<le> 222 \<and> n \<noteq> 215)
         then char_of (n + 32) else c)"

definition toLowerCase :: "string \<Rightarrow> string" where
  "toLowerCase s = map lower_char s"

text \<open>
  \<^verbatim>\<open>toUpperCase\<close>: the letters a to z and the lower case letters U+00E0 to U+00FE (all
  of that block but the division sign U+00F7) move down by 32, and the sharp s U+00DF
  becomes the two letters SS. The upper case of the micro sign U+00B5 and of U+00FF lies
  outside the range of the model; the model leaves these two code units as they are. The
  function is used for the name of a persona in the text of a prompt only.
\<close>

definition upper_char :: "char \<Rightarrow> string" where
  "upper_char c =
     (let n = of_char c :: nat
      in if (97 \<le> n \<and> n \<le> 122) \<or> (224 \<le> n \<and> n \<le> 254 \<and> n \<noteq> 247)
         then [char_of (n - 32)]
         else if n = 223 then ''SS'' else [c])"

definition toUpperCase :: "string \<Rightarrow> string" where
  "toUpperCase s = concat (map upper_char s)"

text \<open>\<^verbatim>\<open>xs.join(sep)\<close>.\<close>

fun join :: "string list \<Rightarrow> string \<Rightarrow> string" where
  "join [] sep = []"
| "join [x] sep = x"
| "join (x # y # ys) sep = x @ sep @ join (y # ys) sep"

section \<open>Persona types (types/personas.ts)\<close>

type_synonym PersonaType = string

definition LIBERAL_GRASSROOTS :: PersonaType where
  "LIBERAL_GRASSROOTS = ''liberal_grassroots''"

definition LIBERAL_EXPERT :: PersonaType where
  "LIBERAL_EXPERT = ''liberal_expert''"

definition CONSERVATIVE_PATRIOT :: PersonaType where
  "CONSERVATIVE_PATRIOT = ''conservative_patriot''"

definition CONSERVATIVE_EXPERT :: PersonaType where
  "CONSERVATIVE_EXPERT = ''conservative_expert''"

datatype PoliticalLeaning = LIBERAL | CONSERVATIVE

datatype ExpertiseLevel = GRASSROOTS | EXPERT

text \<open>The string values of the two enums, as template literals print them.\<close>

fun leaning_value :: "PoliticalLeaning \<Rightarrow> string" where
  "leaning_value LIBERAL = ''liberal''"
| "leaning_value CONSERVATIVE = ''conservative''"

fun expertise_value :: "ExpertiseLevel \<Rightarrow> string" where
  "expertise_value GRASSROOTS = ''grassroots''"
| "expertise_value EXPERT = ''expert''"

record PersonaProfile =
  personaId :: string
  displayName :: string
  description :: string
  politicalLeaning :: PoliticalLeaning
  expertiseLevel :: ExpertiseLevel
  characterName :: string
  background :: string
  writingStyle :: string
  keyInfluences :: "string list"
  signaturePhrases :: "string list"
  preferredSources :: "string list"
  socialMediaHandle :: string
  systemPrompt :: "string option"

text \<open>Interface \<^verbatim>\<open>PersonaCombination\<close>; its fields carry the prefix \<open>pc_\<close>.\<close>

record PersonaCombination =
  pc_id :: string
  pc_displayName :: string
  pc_persona1 :: PersonaProfile
  pc_persona2 :: PersonaProfile
  pc_politicalMatchup :: string

section \<open>Persona registry (lib/persona-registry.ts)\<close>

text \<open>
  The registry is a JavaScript \<^verbatim>\<open>Map\<close>: an association list in insertion order, where
  \<^verbatim>\<open>set\<close> replaces the value of a key that is present, in place, and appends a new key.
\<close>

type_synonym registry = "(PersonaType \<times> PersonaProfile) list"

fun map_set :: "('k \<times> 'v) list \<Rightarrow> 'k \<Rightarrow> 'v \<Rightarrow> ('k \<times> 'v) list" where
  "map_set [] k v = [(k, v)]"
| "map_set ((k', v') # m) k v =
     (if k' = k then (k, v) # m else (k', v') # map_set m k v)"

definition map_get :: "('k \<times> 'v) list \<Rightarrow> 'k \<Rightarrow> 'v option" where
  "map_get m k = map_of m k"

definition map_values :: "('k \<times> 'v) list \<Rightarrow> 'v list" where
  "map_values m = map snd m"

text \<open>
  The four profiles of \<^verbatim>\<open>initializePersonas\<close>. The system prompts returned by
  \<^verbatim>\<open>getAlexRiveraPrompt\<close>, \<^verbatim>\<open>getDrMayaChenPrompt\<close>, \<^verbatim>\<open>getJordanHalePrompt\<close> and
  \<^verbatim>\<open>getMichaelSterlingPrompt\<close> are long constant texts that no operation of the registry
  reads; they are the four arguments, in this order.
\<close>

definition alex_rivera :: "string \<Rightarrow> PersonaProfile" where
  "alex_rivera prompt = \<lparr>
     personaId = ''liberal_grassroots'',
     displayName = ''Alex Rivera - Grassroots Organizer'',
     description = ''Progressive activist and community organizer with street-level experience'',
     politicalLeaning = LIBERAL,
     expertiseLevel = GRASSROOTS,
     characterName = ''Alex Rivera'',
     background = ''32-year-old Latina from Oakland, former BLM organizer, CAP policy analyst'',
     writingStyle = ''Passionate, personal stories, organizing calls, cultural references'',
     keyInfluences = [''Alexandria Ocasio-Cortez'', ''Bernie Sanders'', ''Ibram X. Kendi'',
       ''James Baldwin''],
     signaturePhrases = [''We can't let this stand'', ''This is about our future'',
       ''Growing up in Oakland taught me'', ''My neighbor Maria always says''],
     preferredSources = [''The Guardian'', ''ProPublica'', ''Center for American Progress'',
       ''@AOC'', ''@BernieSanders''],
     socialMediaHandle = ''@AlexRiveraWrites'',
     systemPrompt = Some prompt \<rparr>"

definition maya_chen :: "string \<Rightarrow> PersonaProfile" where
  "maya_chen prompt = \<lparr>
     personaId = ''liberal_expert'',
     displayName = ''Dr. Maya Chen - Policy Expert'',
     description = ''Elite progressive commentator and policy scholar with media influence'',
     politicalLeaning = LIBERAL,
     expertiseLevel = EXPERT,
     characterName = ''Dr. Maya Chen'',
     background = ''45-year-old policy professor at Georgetown, MSNBC contributor, former Obama admin'',
     writingStyle = ''Sophisticated analysis, academic rigor, media-savvy commentary'',
     keyInfluences = [''Elizabeth Warren'', ''Paul Krugman'', ''Rachel Maddow'', ''Robert Reich''],
     signaturePhrases = [''The data clearly shows'', ''As I've argued on MSNBC'',
       ''Policy research demonstrates'', ''My colleagues at Brookings confirm''],
     preferredSources = [''New York Times'', ''Washington Post'', ''Brookings Institution'',
       ''@PaulKrugman'', ''@RachelMaddow''],
     socialMediaHandle = ''@DrMayaChenDC'',
     systemPrompt = Some prompt \<rparr>"

definition jordan_hale :: "string \<Rightarrow> PersonaProfile" where
  "jordan_hale prompt = \<lparr>
     personaId = ''conservative_patriot'',
     displayName = ''Jordan Hale - Patriot Entrepreneur'',
     description = ''Small business owner and veteran with America First values'',
     politicalLeaning = CONSERVATIVE,
     expertiseLevel = GRASSROOTS,
     characterName = ''Jordan Hale'',
     background = ''38-year-old ex-Marine from Texas, construction company owner, podcast host'',
     writingStyle = ''No-nonsense, common sense, patriotic appeals, business examples'',
     keyInfluences = [''Donald Trump'', ''Tucker Carlson'', ''Dan Bongino'', ''Ronald Reagan''],
     signaturePhrases = [''Folks, let's cut through the BS'', ''Any hardworking American can see'',
       ''When I was building my business'', ''My buddy who served in Iraq always says''],
     preferredSources = [''Fox News'', ''Wall Street Journal'', ''Heritage Foundation'',
       ''@realDonaldTrump'', ''@TuckerCarlson''],
     socialMediaHandle = ''@JordanHaleUSA'',
     systemPrompt = Some prompt \<rparr>"

definition michael_sterling :: "string \<Rightarrow> PersonaProfile" where
  "michael_sterling prompt = \<lparr>
     personaId = ''conservative_expert'',
     displayName = ''Michael Sterling - Elite Pundit'',
     description = ''Top-tier conservative intellectual and media personality'',
     politicalLeaning = CONSERVATIVE,
     expertiseLevel = EXPERT,
     characterName = ''Michael Sterling'',
     background = ''52-year-old former federal judge, National Review editor, Fox News host'',
     writingStyle = ''Intellectual authority, constitutional analysis, elite media presence'',
     keyInfluences = [''William F. Buckley'', ''Antonin Scalia'', ''Thomas Sowell'', ''Ben Shapiro''],
     signaturePhrases = [''Constitutional principles demand'', ''As I've written in National Review'',
       ''Legal precedent establishes'', ''The founders were clear''],
     preferredSources = [''National Review'', ''American Enterprise Institute'',
       ''Hoover Institution'', ''@BenShapiro'', ''@Heritage''],
     socialMediaHandle = ''@MichaelSterlingJD'',
     systemPrompt = Some prompt \<rparr>"

definition initializePersonas :: "string \<Rightarrow> string \<Rightarrow> string \<Rightarrow> string \<Rightarrow> registry" where
  "initializePersonas alexPrompt mayaPrompt jordanPrompt michaelPrompt =
     map_set (map_set (map_set (map_set []
       LIBERAL_GRASSROOTS (alex_rivera alexPrompt))
       LIBERAL_EXPERT (maya_chen mayaPrompt))
       CONSERVATIVE_PATRIOT (jordan_hale jordanPrompt))
       CONSERVATIVE_EXPERT (michael_sterling michaelPrompt)"

definition getPersona :: "registry \<Rightarrow> PersonaType \<Rightarrow> PersonaProfile option" where
  "getPersona personas type = map_get personas type"

definition getAllPersonas :: "registry \<Rightarrow> PersonaProfile list" where
  "getAllPersonas personas = map_values personas"

definition getPersonasByLeaning :: "registry \<Rightarrow> PoliticalLeaning \<Rightarrow> PersonaProfile list" where
  "getPersonasByLeaning personas leaning =
     filter (\<lambda>p. politicalLeaning p = leaning) (getAllPersonas personas)"

definition validatePersonaPair :: "registry \<Rightarrow> PersonaType \<Rightarrow> PersonaType \<Rightarrow> bool" where
  "validatePersonaPair personas persona1 persona2 =
     (case map_get personas persona1 of
        None \<Rightarrow> False
      | Some p1 \<Rightarrow>
          (case map_get personas persona2 of
             None \<Rightarrow> False
           | Some p2 \<Rightarrow> politicalLeaning p1 \<noteq> politicalLeaning p2))"

definition make_combination :: "PersonaProfile \<Rightarrow> PersonaProfile \<Rightarrow> PersonaCombination" where
  "make_combination p1 p2 = \<lparr>
     pc_id = personaId p1 @ ''_vs_'' @ personaId p2,
     pc_displayName = displayName p1 @ '' vs '' @ displayName p2,
     pc_persona1 = p1,
     pc_persona2 = p2,
     pc_politicalMatchup =
       leaning_value (politicalLeaning p1) @ '' vs '' @ leaning_value (politicalLeaning p2) \<rparr>"

function combinations_inner ::
  "PersonaProfile list \<Rightarrow> nat \<Rightarrow> nat \<Rightarrow> PersonaCombination list \<Rightarrow> PersonaCombination list" where
  "combinations_inner allPersonas i j combinations =
     (if j < length allPersonas then
        (let p1 = allPersonas ! i; p2 = allPersonas ! j in
           combinations_inner allPersonas i (j + 1)
             (if politicalLeaning p1 \<noteq> politicalLeaning p2
              then combinations @ [make_combination p1 p2]
              else combinations))
      else combinations)"
  by pat_completeness auto
termination
  by (relation "measure (\<lambda>(allPersonas, i, j, combinations). length allPersonas - j)") auto

function combinations_outer ::
  "PersonaProfile list \<Rightarrow> nat \<Rightarrow> PersonaCombination list \<Rightarrow> PersonaCombination list" where
  "combinations_outer allPersonas i combinations =
     (if i < length allPersonas then
        combinations_outer allPersonas (i + 1)
          (combinations_inner allPersonas i (i + 1) combinations)
      else combinations)"
  by pat_completeness auto
termination
  by (relation "measure (\<lambda>(allPersonas, i, combinations). length allPersonas - i)") auto

definition getValidCombinations :: "registry \<Rightarrow> PersonaCombination list" where
  "getValidCombinations personas = combinations_outer (getAllPersonas personas) 0 []"


section \<open>Grok client (lib/grok-client.ts)\<close>

text \<open>
  Interface \<^verbatim>\<open>GrokApiConfig\<close>; its fields carry the prefix \<open>cfg_\<close>. The timeout (in
  milliseconds) and the retry count are natural numbers.
\<close>

record GrokApiConfig =
  cfg_apiKey :: string
  cfg_baseUrl :: "string option"
  cfg_timeout :: "nat option"
  cfg_maxRetries :: "nat option"

text \<open>The private fields of class \<^verbatim>\<open>GrokClient\<close>.\<close>

record GrokClient =
  apiKey :: string
  baseUrl :: string
  timeout :: nat
  maxRetries :: nat

text \<open>Interface \<^verbatim>\<open>GrokGenerateOptions\<close>; its fields carry the prefix \<open>go_\<close>.\<close>

record GrokGenerateOptions =
  go_prompt :: string
  go_systemPrompt :: "string option"
  go_model :: "string option"
  go_temperature :: "real option"
  go_maxTokens :: "nat option"
  go_topP :: "real option"
  go_frequencyPenalty :: "real option"
  go_presencePenalty :: "real option"
  go_stop :: "string list option"
  go_useSearch :: "bool option"

record TokenUsage =
  promptTokens :: real
  completionTokens :: real
  totalTokens :: real

record SourceRef =
  url :: "string option"
  title :: "string option"
  snippet :: "string option"

record GrokResponse =
  content :: string
  usage :: "TokenUsage option"
  model :: string
  sources :: "SourceRef list option"
  searchCost :: "real option"

text \<open>
  What JavaScript throws: one of the object literals of the client
  (\<^verbatim>\<open>{error, code, statusCode, body}\<close>), an \<^verbatim>\<open>Error\<close> object (its name and message), or
  \<^verbatim>\<open>undefined\<close> (\<^verbatim>\<open>throw lastError\<close> when no error was recorded).
\<close>

datatype Thrown =
    ApiError string "string option" "nat option" "string option"
  | JsError string string
  | Undefined

fun statusCode :: "Thrown \<Rightarrow> nat option" where
  "statusCode (ApiError e c s b) = s"
| "statusCode (JsError n m) = None"
| "statusCode Undefined = None"

text \<open>The body of the HTTP request.\<close>

record Message =
  role :: string
  msg_content :: string

record SearchParameters =
  domains :: "string list"
  post_favorite_count :: nat
  post_view_count :: nat
  time_range :: string
  max_sources :: nat

record RequestBody =
  rb_model :: string
  messages :: "Message list"
  temperature :: real
  max_tokens :: nat
  top_p :: real
  stop :: "string list option"
  search_parameters :: "SearchParameters option"

text \<open>
  The JSON of a response, as far as \<^verbatim>\<open>parseResponse\<close> reads it. A choice is the
  \<^verbatim>\<open>message?.content\<close> it carries; an absent \<^verbatim>\<open>choices\<close> is the empty list.
\<close>

record RawUsage =
  prompt_tokens :: real
  completion_tokens :: real
  total_tokens :: real

record RawSource =
  src_url :: "string option"
  src_link :: "string option"
  src_title :: "string option"
  src_name :: "string option"
  src_snippet :: "string option"
  src_description :: "string option"
  src_text :: "string option"

datatype RawChoice = RawChoice (message_content: "string option")

record RawResponse =
  choices :: "RawChoice list"
  raw_usage :: "RawUsage option"
  search_results :: "RawSource list option"
  raw_sources :: "RawSource list option"

text \<open>
  The upstream API is outside the program. One call of \<^verbatim>\<open>fetch\<close> ends in one of three
  ways: a promise of the \<^verbatim>\<open>try\<close> block (\<^verbatim>\<open>fetch\<close>, \<^verbatim>\<open>response.text()\<close>,
  \<^verbatim>\<open>response.json()\<close>) rejects with an \<^verbatim>\<open>Error\<close> of some name and message (the abort
  of the timeout has the name \<^verbatim>\<open>AbortError\<close>); the response is not ok, with its status,
  status text and body; or the response is ok and its JSON is read. The upstream is a
  function from the number of earlier calls, the URL and the request body to that outcome.
\<close>

datatype FetchOutcome =
    Rejects string string
  | NotOk nat string string
  | Json RawResponse

type_synonym upstream = "nat \<Rightarrow> string \<Rightarrow> RequestBody \<Rightarrow> FetchOutcome"

text \<open>\<^verbatim>\<open>a || b\<close> on optional strings: the empty string is falsy.\<close>

definition js_or :: "string option \<Rightarrow> string option \<Rightarrow> string option" where
  "js_or a b = (case a of None \<Rightarrow> b | Some s \<Rightarrow> if s = [] then b else Some s)"

definition newGrokClient :: "GrokApiConfig \<Rightarrow> Thrown + GrokClient" where
  "newGrokClient config =
     (let client = \<lparr>
        apiKey = cfg_apiKey config,
        baseUrl = (case js_or (cfg_baseUrl config) None of
                     None \<Rightarrow> ''https://api.x.ai/v1'' | Some u \<Rightarrow> u),
        timeout = (case cfg_timeout config of
                     None \<Rightarrow> 60000 | Some t \<Rightarrow> if t = 0 then 60000 else t),
        maxRetries = (case cfg_maxRetries config of
                     None \<Rightarrow> 3 | Some r \<Rightarrow> if r = 0 then 3 else r) \<rparr>
      in if apiKey client = [] then Inl (JsError ''Error'' ''XAI_API_KEY is required'')
         else Inr client)"

definition makeRequest ::
  "GrokClient \<Rightarrow> upstream \<Rightarrow> nat \<Rightarrow> string \<Rightarrow> RequestBody \<Rightarrow> (Thrown + RawResponse) \<times> nat" where
  "makeRequest client up n endpoint body =
     (case up n (baseUrl client @ endpoint) body of
        Rejects name message \<Rightarrow>
          (if name = ''AbortError''
           then (Inl (ApiError ''Request timeout'' (Some ''TIMEOUT'') None None), n + 1)
           else (Inl (JsError name message), n + 1))
      | NotOk status statusText errorBody \<Rightarrow>
          (Inl (ApiError (''API request failed: '' @ statusText) None (Some status) (Some errorBody)),
           n + 1)
      | Json response \<Rightarrow> (Inr response, n + 1))"

definition parse_source :: "RawSource \<Rightarrow> SourceRef" where
  "parse_source source = \<lparr>
     url = js_or (src_url source) (src_link source),
     title = js_or (src_title source) (src_name source),
     snippet = js_or (js_or (src_snippet source) (src_description source)) (src_text source) \<rparr>"

definition parseResponse :: "RawResponse \<Rightarrow> string \<Rightarrow> bool \<Rightarrow> Thrown + GrokResponse" where
  "parseResponse response model' useSearch =
     (case choices response of
        [] \<Rightarrow> Inl (ApiError ''Invalid response: no choices returned'' None None None)
      | choice # _ \<Rightarrow>
          (let content' = (case js_or (message_content choice) (Some []) of
                            None \<Rightarrow> [] | Some c \<Rightarrow> c);
               result = \<lparr>
                 content = content',
                 usage = (case raw_usage response of
                            None \<Rightarrow> None
                          | Some u \<Rightarrow> Some \<lparr> promptTokens = prompt_tokens u,
                                             completionTokens = completion_tokens u,
                                             totalTokens = total_tokens u \<rparr>),
                 model = model',
                 sources = None,
                 searchCost = None \<rparr>
           in if useSearch \<and> (search_results response \<noteq> None \<or> raw_sources response \<noteq> None)
              then
                (let searchResults = (case search_results response of
                                        Some rs \<Rightarrow> rs
                                      | None \<Rightarrow> (case raw_sources response of
                                                   Some rs \<Rightarrow> rs | None \<Rightarrow> []))
                 in Inr (result \<lparr> sources := Some (map parse_source searchResults),
                                 searchCost := Some (real (length searchResults) * 0.025) \<rparr>))
              else Inr result))"

text \<open>
  The retry loop of \<^verbatim>\<open>generate\<close>. The result carries the number of calls of \<^verbatim>\<open>fetch\<close>
  made so far. The wait between two attempts (\<^verbatim>\<open>getRetryDelay\<close>, \<^verbatim>\<open>sleep\<close>) passes
  time and changes no value; it is not part of the model.
\<close>

function generate_loop ::
  "GrokClient \<Rightarrow> upstream \<Rightarrow> string \<Rightarrow> RequestBody \<Rightarrow> string \<Rightarrow> bool \<Rightarrow>
   nat \<Rightarrow> Thrown option \<Rightarrow> nat \<Rightarrow> (Thrown + GrokResponse) \<times> nat" where
  "generate_loop client up endpoint requestBody model' useSearch attempt lastError n =
     (if attempt < maxRetries client then
        (case makeRequest client up n endpoint requestBody of
           (Inr response, n') \<Rightarrow>
             (case parseResponse response model' useSearch of
                Inr result \<Rightarrow> (Inr result, n')
              | Inl error \<Rightarrow>
                  (if statusCode error = Some 429
                   then generate_loop client up endpoint requestBody model' useSearch
                          (attempt + 1) (Some error) n'
                   else (Inl error, n')))
         | (Inl error, n') \<Rightarrow>
             (if statusCode error = Some 429
              then generate_loop client up endpoint requestBody model' useSearch
                     (attempt + 1) (Some error) n'
              else (Inl error, n')))
      else (Inl (case lastError of None \<Rightarrow> Undefined | Some error \<Rightarrow> error), n))"
  by pat_completeness auto
termination
  by (relation "measure (\<lambda>(client, up, endpoint, requestBody, model', useSearch, attempt, lastError, n).
        maxRetries client - attempt)") auto

definition twitter_search_parameters :: SearchParameters where
  "twitter_search_parameters = \<lparr>
     domains = [''x.com'', ''twitter.com''],
     post_favorite_count = 10,
     post_view_count = 100,
     time_range = ''week'',
     max_sources = 20 \<rparr>"

definition build_request :: "GrokGenerateOptions \<Rightarrow> RequestBody" where
  "build_request options =
     (let prompt = go_prompt options;
          systemPrompt' = (case go_systemPrompt options of None \<Rightarrow> [] | Some s \<Rightarrow> s);
          model' = (case go_model options of None \<Rightarrow> ''grok-4-fast'' | Some m \<Rightarrow> m);
          temperature' = (case go_temperature options of None \<Rightarrow> 0.7 | Some t \<Rightarrow> t);
          maxTokens = (case go_maxTokens options of None \<Rightarrow> 2000 | Some t \<Rightarrow> t);
          topP = (case go_topP options of None \<Rightarrow> 1 | Some p \<Rightarrow> p);
          stop' = (case go_stop options of None \<Rightarrow> [] | Some s \<Rightarrow> s);
          useSearch = (case go_useSearch options of None \<Rightarrow> False | Some b \<Rightarrow> b)
      in \<lparr> rb_model = model',
           messages =
             (if systemPrompt' \<noteq> []
              then [\<lparr> role = ''system'', msg_content = systemPrompt' \<rparr>] else [])
             @ [\<lparr> role = ''user'', msg_content = prompt \<rparr>],
           temperature = temperature',
           max_tokens = maxTokens,
           top_p = topP,
           stop = (if length stop' > 0 then Some stop' else None),
           search_parameters = (if useSearch then Some twitter_search_parameters else None) \<rparr>)"

definition generate ::
  "GrokClient \<Rightarrow> upstream \<Rightarrow> nat \<Rightarrow> GrokGenerateOptions \<Rightarrow> (Thrown + GrokResponse) \<times> nat" where
  "generate client up n options =
     (let model' = (case go_model options of None \<Rightarrow> ''grok-4-fast'' | Some m \<Rightarrow> m);
          useSearch = (case go_useSearch options of None \<Rightarrow> False | Some b \<Rightarrow> b);
          endpoint = ''/chat/completions'';
          requestBody = build_request options
      in generate_loop client up endpoint requestBody model' useSearch 0 None n)"

definition estimateCost :: "TokenUsage option \<Rightarrow> real \<Rightarrow> real" where
  "estimateCost usage' searchSources =
     (case usage' of
        None \<Rightarrow> 0
      | Some u \<Rightarrow>
          (let inputCostPerToken = 0.20 / 1000000;
               outputCostPerToken = 0.50 / 1000000;
               searchCostPerSource = 0.025;
               inputCost = promptTokens u * inputCostPerToken;
               outputCost = completionTokens u * outputCostPerToken;
               searchCost' = searchSources * searchCostPerSource
           in inputCost + outputCost + searchCost'))"

definition reasoningKeywords :: "string list" where
  "reasoningKeywords =
     [''analyze'', ''complex'', ''systematic'', ''constitutional'',
      ''policy'', ''economic'', ''historical'', ''legal'', ''impact'',
      ''comprehensive'', ''evaluate'', ''compare'', ''explain'']"

definition combinedText :: "string \<Rightarrow> string option \<Rightarrow> string" where
  "combinedText topic context =
     toLowerCase (topic @ '' '' @ (case context of None \<Rightarrow> [] | Some c \<Rightarrow> c))"

definition selectModel :: "string \<Rightarrow> string option \<Rightarrow> string" where
  "selectModel topic context =
     (let needsReasoning =
            (list_ex (\<lambda>keyword. str_includes (combinedText topic context) keyword) reasoningKeywords
             \<or> length (combinedText topic context) > 100)
      in if needsReasoning then ''grok-4-fast-reasoning'' else ''grok-4-fast'')"

section \<open>Voice enhancer (lib/voice-enhancer.ts)\<close>

definition dq :: string where
  "dq = [CHR 0x22]"

definition sq :: string where
  "sq = [CHR 0x27]"

definition createExpertEnhancementPrompt :: "string \<Rightarrow> PersonaProfile \<Rightarrow> string \<Rightarrow> string" where
  "createExpertEnhancementPrompt contentSample persona signaturePhrases' =
     join
       [''Rewrite this excerpt to sound more authentically like '' @ characterName persona @ '', an elite '' @ leaning_value (politicalLeaning persona) @ '' expert. Add:'',
        [],
        ''- 1-2 references to your credentials or media appearances ('' @ dq @ ''As I testified before Congress...'' @ dq @ '' or '' @ dq @ ''In my recent MSNBC appearance...'' @ dq @ '')'',
        ''- Sophisticated language with academic authority'',
        ''- A reference to research, legal precedent, or policy expertise'',
        ''- Signature phrases like '' @ dq @ signaturePhrases' @ dq,
        ''- Maintain the intellectual gravitas expected from a top-tier expert'',
        [],
        ''Keep the same length and main points. Don't lose the facts or policy substance.'',
        [],
        ''Original excerpt:'',
        contentSample,
        [],
        ''Enhanced version with '' @ characterName persona @ sq @ ''s expert voice:'']
       [newline]"

definition createGrassrootsEnhancementPrompt :: "string \<Rightarrow> PersonaProfile \<Rightarrow> string \<Rightarrow> string" where
  "createGrassrootsEnhancementPrompt contentSample persona signaturePhrases' =
     join
       [''Rewrite this excerpt to sound more authentically like '' @ characterName persona @ '', a passionate '' @ leaning_value (politicalLeaning persona) @ '' grassroots advocate. Add:'',
        [],
        ''- 1-2 personal touches ('' @ dq @ ''Growing up in...'' @ dq @ '' or '' @ dq @ ''My friend always says...'' @ dq @ '')'',
        ''- More emotional urgency and passion'',
        ''- A cultural reference or real-world example if it fits naturally'',
        ''- Signature phrases like '' @ dq @ signaturePhrases' @ dq,
        ''- Direct, accessible language that connects with regular people'',
        [],
        ''Keep the same length and main points. Don't lose the facts or policy substance.'',
        [],
        ''Original excerpt:'',
        contentSample,
        [],
        ''Enhanced version with '' @ characterName persona @ sq @ ''s authentic voice:'']
       [newline]"

definition createEnhancementPrompt :: "string \<Rightarrow> PersonaProfile \<Rightarrow> real \<Rightarrow> string" where
  "createEnhancementPrompt contentSample persona biasLevel' =
     (let signaturePhrases' = join (take 2 (signaturePhrases persona)) (dq @ '' or '' @ dq)
      in if expertiseLevel persona = EXPERT
         then createExpertEnhancementPrompt contentSample persona signaturePhrases'
         else createGrassrootsEnhancementPrompt contentSample persona signaturePhrases')"

definition getEnhancementSystemPrompt :: "PersonaProfile \<Rightarrow> string" where
  "getEnhancementSystemPrompt persona =
     join
       [''You are a voice coach helping make '' @ characterName persona @ sq @ ''s writing more authentic and engaging while keeping it factual and substantive.'',
        [],
        characterName persona @ '' is '' @ background persona @ ''. Their writing style is: '' @ writingStyle persona @ ''.'',
        [],
        ''Enhance the voice to match their personality while maintaining all factual content and policy substance.'']
       [newline]"

text \<open>
  \<^verbatim>\<open>enhanceContent\<close>. The promise it returns may in principle reject, so the result is a
  sum; the second component is the number of calls of \<^verbatim>\<open>fetch\<close> made so far.
\<close>

definition enhanceContent ::
  "GrokClient \<Rightarrow> upstream \<Rightarrow> nat \<Rightarrow> string \<Rightarrow> PersonaProfile \<Rightarrow> real \<Rightarrow> (Thrown + string) \<times> nat" where
  "enhanceContent client up n content' persona biasLevel' =
     (let sampleLength = min 600 (length content');
          contentSample = take sampleLength content';
          enhancementPrompt = createEnhancementPrompt contentSample persona biasLevel'
      in case generate client up n \<lparr>
              go_prompt = enhancementPrompt,
              go_systemPrompt = Some (getEnhancementSystemPrompt persona),
              go_model = Some ''grok-4-fast'',
              go_temperature = Some (0.8 + (biasLevel' * 0.1)),
              go_maxTokens = Some 800,
              go_topP = None,
              go_frequencyPenalty = None,
              go_presencePenalty = None,
              go_stop = None,
              go_useSearch = None \<rparr> of
           (Inr response, n') \<Rightarrow>
             (let enhancedExcerpt = content response
              in if enhancedExcerpt \<noteq> [] \<and> length (trim enhancedExcerpt) > 50
                 then (Inr (enhancedExcerpt @ drop sampleLength content'), n')
                 else (Inr content', n'))
         | (Inl error, n') \<Rightarrow> (Inr content', n'))"

section \<open>Debate generator (lib/debate-generator.ts)\<close>

text \<open>
  An object with the two keys \<^verbatim>\<open>persona1\<close> and \<^verbatim>\<open>persona2\<close> (the bias levels, the
  models used, the cost breakdown, the two slots of a result).
\<close>

record 'a per_persona =
  persona1 :: 'a
  persona2 :: 'a

text \<open>Interface \<^verbatim>\<open>DebateConfig\<close>; \<^verbatim>\<open>topic\<close> and \<^verbatim>\<open>context\<close> carry the prefix \<open>dc_\<close>.\<close>

record DebateConfig =
  dc_topic :: string
  persona1Id :: PersonaType
  persona2Id :: PersonaType
  dc_context :: "string option"
  useTwitterSearch :: "bool option"
  biasLevels :: "real per_persona option"

text \<open>The \<^verbatim>\<open>persona\<close> projection of a response; its fields carry the prefix \<open>pi_\<close>.\<close>

record PersonaIdentity =
  pi_id :: string
  pi_characterName :: string
  pi_displayName :: string
  pi_expertiseLevel :: ExpertiseLevel
  pi_socialMediaHandle :: string

text \<open>Interface \<^verbatim>\<open>PersonaResponse\<close>; the fields \<^verbatim>\<open>persona\<close>, \<^verbatim>\<open>topic\<close>, \<^verbatim>\<open>context\<close>,
  \<^verbatim>\<open>content\<close>, \<^verbatim>\<open>title\<close> and \<^verbatim>\<open>timestamp\<close> carry the prefix \<open>pr_\<close>.\<close>

record PersonaResponse =
  perspective :: PoliticalLeaning
  pr_persona :: PersonaIdentity
  pr_topic :: string
  pr_context :: "string option"
  pr_content :: string
  pr_title :: string
  modelUsed :: string
  tokenUsage :: "TokenUsage option"
  sourcesUsed :: "string option list option"
  pr_timestamp :: string
  twitterIntegrated :: bool
  biasLevel :: real
  voiceEnhanced :: bool

text \<open>One slot of \<^verbatim>\<open>DebateResult.personas\<close>; its fields carry the prefix \<open>ps_\<close>.\<close>

record PersonaSlot =
  ps_id :: string
  ps_info :: PersonaProfile
  ps_content :: PersonaResponse

record GenerationMetadata =
  generationTimeSeconds :: real
  twitterSearchEnabled :: bool
  gm_biasLevels :: "real per_persona"
  modelsUsed :: "string per_persona"

record CostAnalysis =
  totalEstimatedCost :: real
  costBreakdown :: "TokenUsage option per_persona"

text \<open>Interface \<^verbatim>\<open>DebateResult\<close>; \<^verbatim>\<open>topic\<close>, \<^verbatim>\<open>context\<close> and \<^verbatim>\<open>timestamp\<close> carry the
  prefix \<open>dr_\<close>.\<close>

record DebateResult =
  debateId :: string
  dr_topic :: string
  dr_context :: "string option"
  personas :: "PersonaSlot per_persona"
  generationMetadata :: GenerationMetadata
  costAnalysis :: "CostAnalysis option"
  dr_timestamp :: string

text \<open>
  The readings of the clock during one call of \<^verbatim>\<open>generateDebate\<close>: \<^verbatim>\<open>Date.now()\<close> at the
  start and after both responses arrived, \<^verbatim>\<open>Date.now()\<close> as printed in the debate
  identifier, and \<^verbatim>\<open>new Date().toISOString()\<close> in the two responses and in the result.
\<close>

record Clock =
  startTime :: int
  endTime :: int
  idTime :: string
  timestamp1 :: string
  timestamp2 :: string
  resultTimestamp :: string

definition getExpertPromptTemplate :: "PersonaProfile \<Rightarrow> string \<Rightarrow> string" where
  "getExpertPromptTemplate persona topic =
     join
       [''Write a comprehensive blog post about: '' @ topic,
        [],
        ''REQUIREMENTS FOR EXPERT COMMENTARY:'',
        ''1. Lead with authoritative expertise and credentialed perspective'',
        ''2. Write 900-1400 words with sophisticated but accessible analysis'',
        ''3. Include specific policy recommendations with precedent/evidence'',
        ''4. Reference 3-4 high-credibility sources (academic, institutional, legal)'',
        ''5. Address counterarguments with intellectual rigor'',
        ''6. Demonstrate deep knowledge of subject matter and historical context'',
        ''7. End with specific legislative or policy recommendations'',
        ''8. Use media-ready sound bites and quotable passages'',
        ''9. Reference your own expertise, publications, or media appearances naturally'',
        [],
        ''STRUCTURE FOR '' @ toUpperCase (characterName persona) @ '':'',
        ''- Authoritative Hook (establish credentials and stakes)'',
        ''- Expert Analysis (demonstrate deep knowledge with data/precedent)'',
        ''- Policy Framework (systematic breakdown of the issue)'',
        ''- Evidence & International Comparison (what works elsewhere)'',
        ''- Counter-argument Demolition (intellectual takedown of opposition)'',
        ''- Specific Recommendations (actionable policy solutions)'',
        ''- Call to Leadership (appeal to policymakers and informed citizens)'']
       [newline]"

definition getGrassrootsPromptTemplate :: "PersonaProfile \<Rightarrow> string \<Rightarrow> string" where
  "getGrassrootsPromptTemplate persona topic =
     join
       [''Write a comprehensive blog post about: '' @ topic,
        [],
        ''REQUIREMENTS FOR GRASSROOTS ADVOCACY:'',
        ''1. Start with compelling personal or community story'',
        ''2. Write 800-1200 words with authentic voice and passion'',
        ''3. Include specific policy proposals with real-world examples'',
        ''4. Reference 2-3 credible sources that resonate with your base'',
        ''5. Lead with human stories and moral imperative'',
        ''6. Address counterarguments with facts while maintaining fire'',
        ''7. End with organizing calls and hope through collective action'',
        ''8. Use rhetorical questions and direct address ('you', 'we', 'us')'',
        ''9. Include cultural references or current events when relevant'',
        [],
        ''STRUCTURE FOR '' @ toUpperCase (characterName persona) @ '':'',
        ''- Personal Hook (story, shocking stat, or moral question)'',
        ''- The Human Stakes (who gets hurt, what we lose if we don't act)'',
        ''- Evidence & Analysis (data + systemic framing)'',
        ''- What Works (examples of victories and proven solutions)'',
        ''- Addressing Opposition (respectful but firm fact-checking)'',
        ''- The Path Forward (specific actions + organizing)'',
        ''- Rally Cry (inspire collective action and hope)'']
       [newline]"

definition getTwitterIntegrationPrompt :: "PersonaProfile \<Rightarrow> string" where
  "getTwitterIntegrationPrompt persona =
     (let influences = join (take 3 (keyInfluences persona)) '', '';
          sources' = join (take 3 (preferredSources persona)) '', ''
      in join
       [[],
        [],
        ''X/TWITTER LIVE DATA INTEGRATION FOR '' @ toUpperCase (characterName persona) @ '':'',
        ''- PRIORITIZE recent X/Twitter posts and real-time discussions (use search to find current voices)'',
        ''- Reference trending hashtags, viral posts, and breaking commentary from: '' @ influences,
        ''- Cite verified accounts and authoritative sources: '' @ sources',
        ''- Include specific examples of grassroots organizing or expert commentary from X'',
        ''- Reference community notes, fact-checking threads, and counter-narratives'',
        ''- Show the pulse of current social media discourse on this topic'',
        ''- Weave in actual quotes or paraphrases from recent posts (with context)'',
        ''- Use X data to demonstrate momentum, opposition, or emerging viewpoints'',
        ''- Reference specific accounts, threads, or viral moments when relevant'',
        ''- Make it clear when information comes from live social media discourse'',
        [],
        ''SEARCH STRATEGY:'',
        ''- Focus on posts with high engagement (10+ favorites, 100+ views)'',
        ''- Look for recent posts (within the last week) for currency'',
        ''- Find both grassroots voices and verified expert accounts'',
        ''- Capture the authentic tone and language of current X discourse'']
       [newline])"

definition constructPrompt :: "PersonaProfile \<Rightarrow> string \<Rightarrow> string option \<Rightarrow> bool \<Rightarrow> string" where
  "constructPrompt persona topic context useTwitterSearch' =
     (let isExpert = (expertiseLevel persona = EXPERT);
          basePrompt = (if isExpert then getExpertPromptTemplate persona topic
                        else getGrassrootsPromptTemplate persona topic);
          prompt1 = (case context of
                       None \<Rightarrow> basePrompt
                     | Some c \<Rightarrow>
                         if c \<noteq> [] then basePrompt @ [newline, newline] @ ''ADDITIONAL CONTEXT: '' @ c
                         else basePrompt);
          prompt2 = (if useTwitterSearch' then prompt1 @ getTwitterIntegrationPrompt persona
                     else prompt1)
      in prompt2)"

definition getPersonaTemperature :: "PersonaProfile \<Rightarrow> real \<Rightarrow> real" where
  "getPersonaTemperature persona biasLevel' =
     (let baseTemp = (if expertiseLevel persona = EXPERT then 0.65 else 0.7)
      in baseTemp + (biasLevel' * 0.25))"

text \<open>\<^verbatim>\<open>trimmed.replace(/^#\s*/, '')\<close>: one \<^verbatim>\<open>#\<close> at the start and the white space
  after it are removed; a string that does not start with \<^verbatim>\<open>#\<close> is unchanged.\<close>

definition strip_heading :: "string \<Rightarrow> string" where
  "strip_heading trimmed =
     (case trimmed of
        [] \<Rightarrow> []
      | c # cs \<Rightarrow> if c = CHR ''#'' then dropWhile is_space cs else trimmed)"

fun extractTitle_loop :: "string list \<Rightarrow> string" where
  "extractTitle_loop [] = ''Untitled''"
| "extractTitle_loop (line # lines) =
     (let trimmed = trim line
      in if trimmed \<noteq> [] then strip_heading trimmed else extractTitle_loop lines)"

definition extractTitle :: "string \<Rightarrow> string" where
  "extractTitle content' = extractTitle_loop (split_newline content')"

definition source_count :: "PersonaResponse \<Rightarrow> real" where
  "source_count response = (case sourcesUsed response of None \<Rightarrow> 0 | Some l \<Rightarrow> real (length l))"

definition calculateTotalCost :: "PersonaResponse \<Rightarrow> PersonaResponse \<Rightarrow> real" where
  "calculateTotalCost response1 response2 =
     (let cost1 = estimateCost (tokenUsage response1) (source_count response1);
          cost2 = estimateCost (tokenUsage response2) (source_count response2)
      in cost1 + cost2)"

text \<open>
  \<^verbatim>\<open>generatePersonaResponse\<close>, with the upstream and the count of its calls passed
  through: the primary generation first, then, when the content is long enough and the
  bias level high enough, the voice enhancement inside its \<^verbatim>\<open>try\<close> block.
\<close>

definition generatePersonaResponse ::
  "GrokClient \<Rightarrow> upstream \<Rightarrow> nat \<Rightarrow> PersonaProfile \<Rightarrow> string \<Rightarrow> string option \<Rightarrow> bool \<Rightarrow> real \<Rightarrow>
   string \<Rightarrow> (Thrown + PersonaResponse) \<times> nat" where
  "generatePersonaResponse client up n persona topic context useTwitterSearch' biasLevel' now =
     (let prompt = constructPrompt persona topic context useTwitterSearch';
          model' = selectModel topic context;
          temperature' = getPersonaTemperature persona biasLevel'
      in case generate client up n \<lparr>
              go_prompt = prompt,
              go_systemPrompt = systemPrompt persona,
              go_model = Some model',
              go_temperature = Some temperature',
              go_maxTokens = Some 2000,
              go_topP = None,
              go_frequencyPenalty = None,
              go_presencePenalty = None,
              go_stop = None,
              go_useSearch = Some useTwitterSearch' \<rparr> of
           (Inl error, n') \<Rightarrow> (Inl error, n')
         | (Inr grokResponse, n') \<Rightarrow>
             (let (content', voiceEnhanced', n'') =
                    (if length (content grokResponse) > 500 \<and> biasLevel' > 0.3
                     then (case enhanceContent client up n' (content grokResponse) persona biasLevel' of
                             (Inr enhanced, m) \<Rightarrow> (enhanced, True, m)
                           | (Inl error, m) \<Rightarrow> (content grokResponse, False, m))
                     else (content grokResponse, False, n'));
                  title' = extractTitle content'
              in (Inr \<lparr>
                    perspective = politicalLeaning persona,
                    pr_persona = \<lparr>
                      pi_id = personaId persona,
                      pi_characterName = characterName persona,
                      pi_displayName = displayName persona,
                      pi_expertiseLevel = expertiseLevel persona,
                      pi_socialMediaHandle = socialMediaHandle persona \<rparr>,
                    pr_topic = topic,
                    pr_context = context,
                    pr_content = content',
                    pr_title = title',
                    modelUsed = model',
                    tokenUsage = usage grokResponse,
                    sourcesUsed = map_option (map url) (sources grokResponse),
                    pr_timestamp = now,
                    twitterIntegrated = False,
                    biasLevel = biasLevel',
                    voiceEnhanced = voiceEnhanced' \<rparr>, n'')))"

text \<open>
  \<^verbatim>\<open>generateDebate\<close>. The two pipelines of \<^verbatim>\<open>Promise.all\<close> share no state; each sees
  the upstream as its own function \<open>up1\<close>, \<open>up2\<close> (whatever the interleaving of their
  calls was), and each count of calls starts at 0. When both pipelines reject,
  \<^verbatim>\<open>Promise.all\<close> rejects with the error of the one that rejected first:
  \<open>firstRejected1\<close> says that it was the first pipeline. The result carries the two
  counts of calls of \<^verbatim>\<open>fetch\<close>.
\<close>

definition generateDebate ::
  "registry \<Rightarrow> GrokClient \<Rightarrow> upstream \<Rightarrow> upstream \<Rightarrow> bool \<Rightarrow> Clock \<Rightarrow> DebateConfig \<Rightarrow>
   (Thrown + DebateResult) \<times> nat \<times> nat" where
  "generateDebate personaRegistry client up1 up2 firstRejected1 clock config =
     (if \<not> validatePersonaPair personaRegistry (persona1Id config) (persona2Id config)
      then (Inl (JsError ''Error''
              ''Invalid persona selection: personas must be from opposing political sides''), 0, 0)
      else
        (case (getPersona personaRegistry (persona1Id config),
               getPersona personaRegistry (persona2Id config)) of
           (Some persona1', Some persona2') \<Rightarrow>
             (let biasLevels' = (case biasLevels config of
                                  None \<Rightarrow> \<lparr> persona1 = 0.5, persona2 = 0.5 \<rparr>
                                | Some b \<Rightarrow> b);
                  search = (case useTwitterSearch config of None \<Rightarrow> True | Some b \<Rightarrow> b);
                  (result1, n1) = generatePersonaResponse client up1 0 persona1' (dc_topic config)
                                    (dc_context config) search (persona1 biasLevels') (timestamp1 clock);
                  (result2, n2) = generatePersonaResponse client up2 0 persona2' (dc_topic config)
                                    (dc_context config) search (persona2 biasLevels') (timestamp2 clock)
              in case (result1, result2) of
                   (Inr response1, Inr response2) \<Rightarrow>
                     (let generationTime = real_of_int (endTime clock - startTime clock) / 1000;
                          totalCost = calculateTotalCost response1 response2
                      in (Inr \<lparr>
                            debateId = idTime clock @ ''_'' @ persona1Id config @ ''_'' @ persona2Id config,
                            dr_topic = dc_topic config,
                            dr_context = dc_context config,
                            personas = \<lparr>
                              persona1 = \<lparr> ps_id = persona1Id config, ps_info = persona1',
                                           ps_content = response1 \<rparr>,
                              persona2 = \<lparr> ps_id = persona2Id config, ps_info = persona2',
                                           ps_content = response2 \<rparr> \<rparr>,
                            generationMetadata = \<lparr>
                              generationTimeSeconds = generationTime,
                              twitterSearchEnabled = search,
                              gm_biasLevels = biasLevels',
                              modelsUsed = \<lparr> persona1 = modelUsed response1,
                                             persona2 = modelUsed response2 \<rparr> \<rparr>,
                            costAnalysis = Some \<lparr>
                              totalEstimatedCost = totalCost,
                              costBreakdown = \<lparr> persona1 = tokenUsage response1,
                                                persona2 = tokenUsage response2 \<rparr> \<rparr>,
                            dr_timestamp = resultTimestamp clock \<rparr>, n1, n2))
                 | (Inl error1, Inr response2) \<Rightarrow> (Inl error1, n1, n2)
                 | (Inr response1, Inl error2) \<Rightarrow> (Inl error2, n1, n2)
                 | (Inl error1, Inl error2) \<Rightarrow>
                     (Inl (if firstRejected1 then error1 else error2), n1, n2))
         | _ \<Rightarrow> (Inl (JsError ''Error'' ''Invalid persona IDs provided''), 0, 0)))"

section \<open>Notions used in the statements\<close>

subsection \<open>Pairs of profiles\<close>

definition opposed :: "PersonaProfile \<Rightarrow> PersonaProfile \<Rightarrow> bool" where
  "opposed p q = (politicalLeaning p \<noteq> politicalLeaning q)"

text \<open>The combinations of one profile with the opposed ones of a list, in the list's order.\<close>

definition row :: "PersonaProfile \<Rightarrow> PersonaProfile list \<Rightarrow> PersonaCombination list" where
  "row p qs = map (make_combination p) (filter (opposed p) qs)"

fun pairs_of :: "PersonaProfile list \<Rightarrow> PersonaCombination list" where
  "pairs_of [] = []"
| "pairs_of (p # ps) = row p ps @ pairs_of ps"

definition count_leaning :: "PoliticalLeaning \<Rightarrow> PersonaProfile list \<Rightarrow> nat" where
  "count_leaning l ps = length (filter (\<lambda>p. politicalLeaning p = l) ps)"

text \<open>The unordered pair of profiles of a combination.\<close>

definition pair_of :: "PersonaCombination \<Rightarrow> PersonaProfile set" where
  "pair_of e = {pc_persona1 e, pc_persona2 e}"

text \<open>The pairs of positions \<open>i < j\<close> below \<open>n\<close>, in the order of the two loops.\<close>

definition index_pairs :: "nat \<Rightarrow> (nat \<times> nat) list" where
  "index_pairs n = concat (map (\<lambda>i. map (Pair i) [i + 1..<n]) [0..<n])"

subsection \<open>The model selection as the specification words it\<close>

text \<open>
  The specification speaks of the lower-cased concatenation of the topic and the context.
  \<open>claimed_selectModel\<close> follows these words: the text is the topic followed by the
  context (nothing when the context is absent), lower-cased.
\<close>

definition claimed_combinedText :: "string \<Rightarrow> string option \<Rightarrow> string" where
  "claimed_combinedText topic context =
     toLowerCase (topic @ (case context of None \<Rightarrow> [] | Some c \<Rightarrow> c))"

definition claimed_selectModel :: "string \<Rightarrow> string option \<Rightarrow> string" where
  "claimed_selectModel topic context =
     (if list_ex (\<lambda>keyword. str_includes (claimed_combinedText topic context) keyword) reasoningKeywords
         \<or> length (claimed_combinedText topic context) > 100
      then ''grok-4-fast-reasoning'' else ''grok-4-fast'')"

subsection \<open>The title as the specification words it\<close>

text \<open>
  The specification takes the first line that is not blank and strips any leading heading
  markers from it. \<open>claimed_extractTitle\<close> follows these words: every \<^verbatim>\<open>#\<close> at the start
  of the trimmed line goes, with the white space after them.
\<close>

definition claimed_strip_heading :: "string \<Rightarrow> string" where
  "claimed_strip_heading trimmed = dropWhile is_space (dropWhile (\<lambda>c. c = CHR ''#'') trimmed)"

definition claimed_extractTitle :: "string \<Rightarrow> string" where
  "claimed_extractTitle content' =
     (case find (\<lambda>line. trim line \<noteq> []) (split_newline content') of
        None \<Rightarrow> ''Untitled''
      | Some line \<Rightarrow> claimed_strip_heading (trim line))"

subsection \<open>The attempts of one call of generate\<close>

text \<open>
  What the body of the retry loop computes from the call of \<^verbatim>\<open>fetch\<close> number \<open>i\<close>: the
  parsed response, or the error that \<^verbatim>\<open>makeRequest\<close> or \<^verbatim>\<open>parseResponse\<close> throws.
\<close>

definition attempt_result ::
  "GrokClient \<Rightarrow> upstream \<Rightarrow> string \<Rightarrow> RequestBody \<Rightarrow> string \<Rightarrow> bool \<Rightarrow> nat \<Rightarrow> Thrown + GrokResponse" where
  "attempt_result client up endpoint requestBody model' useSearch i =
     (case fst (makeRequest client up i endpoint requestBody) of
        Inr response \<Rightarrow> parseResponse response model' useSearch
      | Inl error \<Rightarrow> Inl error)"

text \<open>The attempt number \<open>k\<close> (from 0) of a call of \<open>generate\<close> that starts after \<open>n\<close>
  calls of \<^verbatim>\<open>fetch\<close>.\<close>

definition generate_attempt ::
  "GrokClient \<Rightarrow> upstream \<Rightarrow> nat \<Rightarrow> GrokGenerateOptions \<Rightarrow> nat \<Rightarrow> Thrown + GrokResponse" where
  "generate_attempt client up n options k =
     attempt_result client up ''/chat/completions'' (build_request options)
       (case go_model options of None \<Rightarrow> ''grok-4-fast'' | Some m \<Rightarrow> m)
       (case go_useSearch options of None \<Rightarrow> False | Some b \<Rightarrow> b)
       (n + k)"

text \<open>An attempt failed with an error whose \<^verbatim>\<open>statusCode\<close> is 429.\<close>

definition rate_limited :: "Thrown + GrokResponse \<Rightarrow> bool" where
  "rate_limited r = (case r of Inl error \<Rightarrow> statusCode error = Some 429 | Inr response \<Rightarrow> False)"

text \<open>A configuration with the defaults, and an upstream that answers 429 to the first three
  calls and then succeeds.\<close>

definition default_config :: GrokApiConfig where
  "default_config = \<lparr> cfg_apiKey = ''key'', cfg_baseUrl = None, cfg_timeout = None,
     cfg_maxRetries = None \<rparr>"

definition default_client :: GrokClient where
  "default_client = \<lparr> apiKey = ''key'', baseUrl = ''https://api.x.ai/v1'', timeout = 60000,
     maxRetries = 3 \<rparr>"

definition plain_options :: "string \<Rightarrow> GrokGenerateOptions" where
  "plain_options prompt = \<lparr>
     go_prompt = prompt, go_systemPrompt = None, go_model = None, go_temperature = None,
     go_maxTokens = None, go_topP = None, go_frequencyPenalty = None, go_presencePenalty = None,
     go_stop = None, go_useSearch = None \<rparr>"

definition json_reply :: "string \<Rightarrow> RawResponse" where
  "json_reply text = \<lparr> choices = [RawChoice (Some text)], raw_usage = None,
     search_results = None, raw_sources = None \<rparr>"

definition three_429_then_ok :: upstream where
  "three_429_then_ok i u b =
     (if i < 3 then NotOk 429 ''Too Many Requests'' [] else Json (json_reply ''Done''))"

text \<open>An upstream that answers 429 once and 500 afterwards, and one whose every call is
  aborted by the timeout.\<close>

definition limited_then_500 :: upstream where
  "limited_then_500 i u b =
     (if i = 0 then NotOk 429 ''Too Many Requests'' [] else NotOk 500 ''Internal Server Error'' [])"

definition always_timeout :: upstream where
  "always_timeout i u b = Rejects ''AbortError'' ''This operation was aborted''"

subsection \<open>The two calls of a persona pipeline\<close>

text \<open>The options of the call of \<open>generate\<close> in \<open>enhanceContent\<close>, for a content sample.\<close>

definition enhancement_options :: "string \<Rightarrow> PersonaProfile \<Rightarrow> real \<Rightarrow> GrokGenerateOptions" where
  "enhancement_options contentSample persona biasLevel' = \<lparr>
     go_prompt = createEnhancementPrompt contentSample persona biasLevel',
     go_systemPrompt = Some (getEnhancementSystemPrompt persona),
     go_model = Some ''grok-4-fast'',
     go_temperature = Some (0.8 + (biasLevel' * 0.1)),
     go_maxTokens = Some 800,
     go_topP = None,
     go_frequencyPenalty = None,
     go_presencePenalty = None,
     go_stop = None,
     go_useSearch = None \<rparr>"

text \<open>The options of the primary call of \<open>generate\<close> in \<open>generatePersonaResponse\<close>.\<close>

definition primary_options ::
  "PersonaProfile \<Rightarrow> string \<Rightarrow> string option \<Rightarrow> bool \<Rightarrow> real \<Rightarrow> GrokGenerateOptions" where
  "primary_options persona topic context useTwitterSearch' biasLevel' = \<lparr>
     go_prompt = constructPrompt persona topic context useTwitterSearch',
     go_systemPrompt = systemPrompt persona,
     go_model = Some (selectModel topic context),
     go_temperature = Some (getPersonaTemperature persona biasLevel'),
     go_maxTokens = Some 2000,
     go_topP = None,
     go_frequencyPenalty = None,
     go_presencePenalty = None,
     go_stop = None,
     go_useSearch = Some useTwitterSearch' \<rparr>"

text \<open>The returned text passes the test of \<open>enhanceContent\<close>: it is not empty and has more
  than 50 characters after trimming.\<close>

definition usable_excerpt :: "string \<Rightarrow> bool" where
  "usable_excerpt enhancedExcerpt = (enhancedExcerpt \<noteq> [] \<and> 50 < length (trim enhancedExcerpt))"

text \<open>One pipeline of \<open>generateDebate\<close>, and the bias levels and search flag it runs with.\<close>

definition debate_bias :: "DebateConfig \<Rightarrow> real per_persona" where
  "debate_bias config =
     (case biasLevels config of None \<Rightarrow> \<lparr> persona1 = 0.5, persona2 = 0.5 \<rparr> | Some b \<Rightarrow> b)"

definition debate_pipeline ::
  "GrokClient \<Rightarrow> upstream \<Rightarrow> PersonaProfile \<Rightarrow> DebateConfig \<Rightarrow> real \<Rightarrow> string \<Rightarrow>
   (Thrown + PersonaResponse) \<times> nat" where
  "debate_pipeline client up persona config bias stamp =
     generatePersonaResponse client up 0 persona (dc_topic config) (dc_context config)
       (case useTwitterSearch config of None \<Rightarrow> True | Some b \<Rightarrow> b) bias stamp"

text \<open>Inputs of the examples: a content of 501 characters, an upstream that answers the
  first call with it and every later call with the status 500, one that answers every
  later call with a text too short to use, one that always answers with a usable text,
  and one that always fails.\<close>

definition long_content :: string where
  "long_content = replicate 501 (CHR ''a'')"

definition enhancer_fails :: upstream where
  "enhancer_fails i u b =
     (if i = 0 then Json (json_reply long_content) else NotOk 500 ''Internal Server Error'' [])"

definition enhancer_short :: upstream where
  "enhancer_short i u b =
     (if i = 0 then Json (json_reply long_content) else Json (json_reply ''Sorry.''))"

definition excerpt :: string where
  "excerpt = ''As I testified before Congress, the data clearly shows that rents outpace wages.''"

definition always_excerpt :: upstream where
  "always_excerpt i u b = Json (json_reply excerpt)"

definition always_500 :: upstream where
  "always_500 i u b = NotOk 500 ''Internal Server Error'' []"

definition example_clock :: Clock where
  "example_clock = \<lparr> startTime = 1000, endTime = 3500, idTime = ''3500'',
     timestamp1 = ''2025-01-01T00:00:02.000Z'', timestamp2 = ''2025-01-01T00:00:03.000Z'',
     resultTimestamp = ''2025-01-01T00:00:03.500Z'' \<rparr>"

definition example_config :: "PersonaType \<Rightarrow> PersonaType \<Rightarrow> DebateConfig" where
  "example_config id1 id2 = \<lparr> dc_topic = ''Climate change policy'', persona1Id = id1,
     persona2Id = id2, dc_context = None, useTwitterSearch = None, biasLevels = None \<rparr>"

text \<open>A reply of 45 letters followed by 10 no-break spaces, and an upstream that always
  answers with it.\<close>

definition padded_reply :: string where
  "padded_reply = replicate 45 (CHR ''a'') @ replicate 10 (CHR 0xA0)"

definition always_padded :: upstream where
  "always_padded i u b = Json (json_reply padded_reply)"

section \<open>The persona registry: pairing and combinations\<close>

declare combinations_inner.simps [simp del] combinations_outer.simps [simp del]

lemma map_get_shipped:
  "map_get (initializePersonas a b c d) k =
     (if k = ''liberal_grassroots'' then Some (alex_rivera a)
      else if k = ''liberal_expert'' then Some (maya_chen b)
      else if k = ''conservative_patriot'' then Some (jordan_hale c)
      else if k = ''conservative_expert'' then Some (michael_sterling d)
      else None)"
  by (simp add: map_get_def initializePersonas_def LIBERAL_GRASSROOTS_def
      LIBERAL_EXPERT_def CONSERVATIVE_PATRIOT_def CONSERVATIVE_EXPERT_def)

text \<open>
  Claim C2. For every registry and every pair of identifiers, \<open>validatePersonaPair\<close> is
  true exactly when both identifiers resolve to profiles and the two leanings differ; it
  is false when an identifier is unknown and when the two leanings are equal; and it is
  symmetric in its two identifiers.
\<close>

theorem validatePersonaPair_iff:
  "(validatePersonaPair reg a b \<longleftrightarrow>
      (\<exists>p1 p2. getPersona reg a = Some p1 \<and> getPersona reg b = Some p2
         \<and> politicalLeaning p1 \<noteq> politicalLeaning p2))
   \<and> (getPersona reg a = None \<or> getPersona reg b = None
        \<longrightarrow> \<not> validatePersonaPair reg a b)
   \<and> (\<forall>p1 p2. getPersona reg a = Some p1 \<and> getPersona reg b = Some p2
         \<and> politicalLeaning p1 = politicalLeaning p2 \<longrightarrow> \<not> validatePersonaPair reg a b)
   \<and> validatePersonaPair reg a b = validatePersonaPair reg b a"
  by (auto simp: validatePersonaPair_def getPersona_def split: option.splits)

theorem validatePersonaPair_iff_witness:
  "getPersona (initializePersonas [] [] [] []) ''centrist'' = None
   \<and> \<not> validatePersonaPair (initializePersonas [] [] [] []) ''centrist'' LIBERAL_EXPERT
   \<and> \<not> validatePersonaPair (initializePersonas [] [] [] []) LIBERAL_EXPERT ''centrist''
   \<and> getPersona (initializePersonas [] [] [] []) LIBERAL_GRASSROOTS = Some (alex_rivera [])
   \<and> getPersona (initializePersonas [] [] [] []) LIBERAL_EXPERT = Some (maya_chen [])
   \<and> politicalLeaning (alex_rivera []) = politicalLeaning (maya_chen [])
   \<and> \<not> validatePersonaPair (initializePersonas [] [] [] []) LIBERAL_GRASSROOTS LIBERAL_EXPERT
   \<and> validatePersonaPair (initializePersonas [] [] [] []) LIBERAL_EXPERT CONSERVATIVE_PATRIOT
   \<and> validatePersonaPair (initializePersonas [] [] [] []) CONSERVATIVE_PATRIOT LIBERAL_EXPERT"
proof -
  let ?reg = "initializePersonas [] [] [] []"
  have g: "getPersona ?reg ''centrist'' = None"
    "getPersona ?reg LIBERAL_GRASSROOTS = Some (alex_rivera [])"
    "getPersona ?reg LIBERAL_EXPERT = Some (maya_chen [])"
    "getPersona ?reg CONSERVATIVE_PATRIOT = Some (jordan_hale [])"
    by (simp_all add: getPersona_def map_get_shipped LIBERAL_GRASSROOTS_def LIBERAL_EXPERT_def
        CONSERVATIVE_PATRIOT_def)
  have l: "politicalLeaning (alex_rivera []) = politicalLeaning (maya_chen [])"
    "politicalLeaning (maya_chen []) \<noteq> politicalLeaning (jordan_hale [])"
    by (simp_all add: alex_rivera_def maya_chen_def jordan_hale_def)
  show ?thesis
    using validatePersonaPair_iff [of ?reg "''centrist''" LIBERAL_EXPERT]
      validatePersonaPair_iff [of ?reg LIBERAL_GRASSROOTS LIBERAL_EXPERT]
      validatePersonaPair_iff [of ?reg LIBERAL_EXPERT CONSERVATIVE_PATRIOT]
      g l
    by auto
qed

lemma combinations_inner_row:
  "i < length ps \<Longrightarrow> combinations_inner ps i j acc = acc @ row (ps ! i) (drop j ps)"
proof (induction ps i j acc rule: combinations_inner.induct)
  case (1 ps i j acc)
  show ?case
  proof (cases "j < length ps")
    case True
    then have d: "drop j ps = ps ! j # drop (Suc j) ps"
      by (simp add: Cons_nth_drop_Suc)
    show ?thesis
      using True 1 by (subst combinations_inner.simps) (simp add: d row_def opposed_def Let_def)
  next
    case False
    then show ?thesis
      by (subst combinations_inner.simps) (simp add: row_def)
  qed
qed

lemma combinations_outer_pairs:
  "combinations_outer ps i acc = acc @ pairs_of (drop i ps)"
proof (induction ps i acc rule: combinations_outer.induct)
  case (1 ps i acc)
  show ?case
  proof (cases "i < length ps")
    case True
    then have d: "drop i ps = ps ! i # drop (Suc i) ps"
      by (simp add: Cons_nth_drop_Suc)
    show ?thesis
      using True 1 by (subst combinations_outer.simps) (simp add: d combinations_inner_row)
  next
    case False
    then show ?thesis
      by (subst combinations_outer.simps) simp
  qed
qed

lemma getValidCombinations_pairs:
  "getValidCombinations reg = pairs_of (getAllPersonas reg)"
  by (simp add: getValidCombinations_def combinations_outer_pairs)

lemma length_row:
  "length (row p ps) = (case politicalLeaning p of LIBERAL \<Rightarrow> count_leaning CONSERVATIVE ps | CONSERVATIVE \<Rightarrow> count_leaning LIBERAL ps)"
proof -
  have "opposed p = (\<lambda>q. politicalLeaning q = (case politicalLeaning p of LIBERAL \<Rightarrow> CONSERVATIVE | CONSERVATIVE \<Rightarrow> LIBERAL))"
  proof (rule ext)
    fix q show "opposed p q = (politicalLeaning q = (case politicalLeaning p of LIBERAL \<Rightarrow> CONSERVATIVE | CONSERVATIVE \<Rightarrow> LIBERAL))"
      by (cases "politicalLeaning p"; cases "politicalLeaning q") (simp_all add: opposed_def)
  qed
  then show ?thesis
    by (simp add: row_def count_leaning_def split: PoliticalLeaning.splits)
qed

lemma length_pairs_of:
  "length (pairs_of ps) = count_leaning LIBERAL ps * count_leaning CONSERVATIVE ps"
proof (induction ps)
  case Nil
  then show ?case by (simp add: count_leaning_def)
next
  case (Cons p ps)
  show ?case
  proof (cases "politicalLeaning p")
    case LIBERAL
    then show ?thesis using Cons by (simp add: length_row) (simp add: count_leaning_def)
  next
    case CONSERVATIVE
    then show ?thesis using Cons by (simp add: length_row) (simp add: count_leaning_def)
  qed
qed


lemma pc_make [simp]:
  "pc_persona1 (make_combination p q) = p" "pc_persona2 (make_combination p q) = q"
  by (simp_all add: make_combination_def)

lemma set_row: "set (row p qs) = make_combination p ` {q \<in> set qs. opposed p q}"
  by (auto simp: row_def)

lemma pairs_of_members:
  "e \<in> set (pairs_of ps) \<Longrightarrow>
     pc_persona1 e \<in> set ps \<and> pc_persona2 e \<in> set ps \<and> opposed (pc_persona1 e) (pc_persona2 e)"
  by (induction ps) (auto simp: set_row)

lemma pairs_of_complete:
  "p \<in> set ps \<Longrightarrow> q \<in> set ps \<Longrightarrow> opposed p q \<Longrightarrow>
     \<exists>e \<in> set (pairs_of ps). pair_of e = {p, q}"
proof (induction ps)
  case Nil
  then show ?case by simp
next
  case (Cons a ps)
  have sym: "opposed q p" using Cons.prems(3) by (auto simp: opposed_def)
  have ne: "p \<noteq> q" using Cons.prems(3) by (auto simp: opposed_def)
  consider (both) "p \<in> set ps" "q \<in> set ps" | (pa) "p = a" "q \<in> set ps" | (qa) "q = a" "p \<in> set ps"
    using Cons.prems ne by auto
  then show ?case
  proof cases
    case both
    then show ?thesis using Cons.IH Cons.prems(3) by auto
  next
    case pa
    then have "make_combination p q \<in> set (row a ps)"
      using Cons.prems(3) by (simp add: set_row)
    then show ?thesis by (auto simp: pair_of_def intro!: bexI [where x = "make_combination p q"])
  next
    case qa
    then have "make_combination q p \<in> set (row a ps)"
      using sym by (simp add: set_row)
    then show ?thesis by (auto simp: pair_of_def intro!: bexI [where x = "make_combination q p"])
  qed
qed

lemma distinct_pairs_row: "distinct qs \<Longrightarrow> distinct (map pair_of (row p qs))"
proof -
  assume d: "distinct qs"
  have "map pair_of (row p qs) = map (\<lambda>q. {p, q}) (filter (opposed p) qs)"
    by (simp add: row_def pair_of_def comp_def)
  moreover have "inj_on (\<lambda>q. {p, q}) (set (filter (opposed p) qs))"
    by (auto simp: inj_on_def doubleton_eq_iff)
  ultimately show ?thesis using d by (simp add: distinct_map)
qed

lemma distinct_pairs_of: "distinct ps \<Longrightarrow> distinct (map pair_of (pairs_of ps))"
proof (induction ps)
  case Nil
  then show ?case by simp
next
  case (Cons a ps)
  have "pair_of x \<noteq> pair_of y" if "x \<in> set (row a ps)" "y \<in> set (pairs_of ps)" for x y
  proof -
    have "a \<in> pair_of x" using that(1) by (auto simp: set_row pair_of_def)
    moreover have "a \<notin> pair_of y"
      using pairs_of_members [OF that(2)] Cons.prems by (auto simp: pair_of_def)
    ultimately show ?thesis by auto
  qed
  then show ?case using Cons by (auto simp: distinct_pairs_row)
qed

lemma getAllPersonas_shipped:
  "getAllPersonas (initializePersonas a b c d) = [alex_rivera a, maya_chen b, jordan_hale c, michael_sterling d]"
  by (simp add: getAllPersonas_def map_values_def initializePersonas_def LIBERAL_GRASSROOTS_def
      LIBERAL_EXPERT_def CONSERVATIVE_PATRIOT_def CONSERVATIVE_EXPERT_def)

lemma shipped_leanings [simp]:
  "politicalLeaning (alex_rivera a) = LIBERAL" "politicalLeaning (maya_chen b) = LIBERAL"
  "politicalLeaning (jordan_hale c) = CONSERVATIVE" "politicalLeaning (michael_sterling d) = CONSERVATIVE"
  by (simp_all add: alex_rivera_def maya_chen_def jordan_hale_def michael_sterling_def)

lemma shipped_pairs:
  "getValidCombinations (initializePersonas a b c d) =
     [make_combination (alex_rivera a) (jordan_hale c),
      make_combination (alex_rivera a) (michael_sterling d),
      make_combination (maya_chen b) (jordan_hale c),
      make_combination (maya_chen b) (michael_sterling d)]"
  by (simp add: getValidCombinations_pairs getAllPersonas_shipped row_def opposed_def)


lemma drop_as_map: "drop k ps = map ((!) ps) [k..<length ps]"
proof -
  have "drop k ps = drop k (map ((!) ps) [0..<length ps])" by (simp add: map_nth)
  also have "\<dots> = map ((!) ps) [k..<length ps]" by (simp add: drop_map)
  finally show ?thesis .
qed

lemma row_by_index:
  "row (ps ! k) (drop (Suc k) ps) =
     map (\<lambda>(i, j). make_combination (ps ! i) (ps ! j))
       (filter (\<lambda>(i, j). opposed (ps ! i) (ps ! j)) (map (Pair k) [Suc k..<length ps]))"
  by (subst drop_as_map) (simp add: row_def filter_map comp_def)

lemma pairs_of_drop:
  "pairs_of (drop i ps) = concat (map (\<lambda>k. row (ps ! k) (drop (Suc k) ps)) [i..<length ps])"
proof (induction "length ps - i" arbitrary: i)
  case 0
  then show ?case by simp
next
  case (Suc d)
  then have lt: "i < length ps" and d: "d = length ps - Suc i" by simp_all
  have "drop i ps = ps ! i # drop (Suc i) ps"
    using lt by (simp add: Cons_nth_drop_Suc)
  then show ?case
    using Suc.hyps(1) [OF d] lt by (simp add: upt_conv_Cons)
qed

lemma pairs_of_by_index:
  "pairs_of ps =
     map (\<lambda>(i, j). make_combination (ps ! i) (ps ! j))
       (filter (\<lambda>(i, j). opposed (ps ! i) (ps ! j)) (index_pairs (length ps)))"
  using pairs_of_drop [of 0 ps]
  by (simp add: index_pairs_def row_by_index map_concat filter_concat comp_def)

lemma set_index_pairs: "set (index_pairs n) = {(i, j). i < j \<and> j < n}"
proof (intro set_eqI iffI)
  fix x assume "x \<in> set (index_pairs n)"
  then show "x \<in> {(i, j). i < j \<and> j < n}" by (auto simp: index_pairs_def)
next
  fix x assume x: "x \<in> {(i, j). i < j \<and> j < n}"
  obtain i j where ij: "x = (i, j)" by (cases x)
  then have "i < n" "j \<in> set [i + 1..<n]" using x by auto
  then show "x \<in> set (index_pairs n)"
    unfolding index_pairs_def ij by (auto intro!: bexI [where x = i])
qed

lemma distinct_index_pairs: "distinct (index_pairs n)"
  unfolding index_pairs_def
proof (rule distinct_concat)
  have "x = y" if "x < n" "y < n" "map (Pair x) [x + 1..<n] = map (Pair y) [y + 1..<n]" for x y
  proof -
    from that(3) have "length (map (Pair x) [x + 1..<n]) = length (map (Pair y) [y + 1..<n])"
      by (rule arg_cong)
    then show ?thesis using that(1,2) by simp
  qed
  then show "distinct (map (\<lambda>i. map (Pair i) [i + 1..<n]) [0..<n])"
    by (auto simp: distinct_map inj_on_def)
next
  fix ys assume "ys \<in> set (map (\<lambda>i. map (Pair i) [i + 1..<n]) [0..<n])"
  then show "distinct ys" by (auto simp: distinct_map inj_on_def)
next
  fix ys zs
  assume "ys \<in> set (map (\<lambda>i. map (Pair i) [i + 1..<n]) [0..<n])"
    "zs \<in> set (map (\<lambda>i. map (Pair i) [i + 1..<n]) [0..<n])" "ys \<noteq> zs"
  then show "set ys \<inter> set zs = {}" by auto
qed

lemma shipped_distinct:
  "distinct [alex_rivera a, maya_chen b, jordan_hale c, michael_sterling d]"
  by (simp add: alex_rivera_def maya_chen_def jordan_hale_def michael_sterling_def)

text \<open>
  Claim C7. \<open>getValidCombinations\<close> returns one entry for every unordered pair of
  profiles of the catalog with different leanings: the number of entries is the number of
  liberal profiles times the number of conservative ones; both profiles of an entry are in
  the catalog and their leanings differ; every pair of catalog profiles with different
  leanings is the pair of some entry; the entries are, in order, the combinations of the
  profiles at the positions \<open>i < j\<close> of the catalog whose leanings differ, each pair of
  positions taken once; so when the profiles of the catalog are distinct values, no two
  entries have the same unordered pair (no pair is reported a second time, in either
  order); and the shipped catalog yields 4 entries.
\<close>

theorem getValidCombinations_complete:
  "length (getValidCombinations reg) =
     count_leaning LIBERAL (getAllPersonas reg) * count_leaning CONSERVATIVE (getAllPersonas reg)
   \<and> (\<forall>e \<in> set (getValidCombinations reg).
        pc_persona1 e \<in> set (getAllPersonas reg) \<and> pc_persona2 e \<in> set (getAllPersonas reg)
        \<and> politicalLeaning (pc_persona1 e) \<noteq> politicalLeaning (pc_persona2 e))
   \<and> (\<forall>p \<in> set (getAllPersonas reg). \<forall>q \<in> set (getAllPersonas reg).
        politicalLeaning p \<noteq> politicalLeaning q \<longrightarrow>
          (\<exists>e \<in> set (getValidCombinations reg). pair_of e = {p, q}))
   \<and> getValidCombinations reg =
       map (\<lambda>(i, j). make_combination (getAllPersonas reg ! i) (getAllPersonas reg ! j))
         (filter (\<lambda>(i, j). politicalLeaning (getAllPersonas reg ! i)
                           \<noteq> politicalLeaning (getAllPersonas reg ! j))
            (index_pairs (length (getAllPersonas reg))))
   \<and> distinct (index_pairs (length (getAllPersonas reg)))
   \<and> set (index_pairs (length (getAllPersonas reg)))
       = {(i, j). i < j \<and> j < length (getAllPersonas reg)}
   \<and> (distinct (getAllPersonas reg) \<longrightarrow> distinct (map pair_of (getValidCombinations reg)))
   \<and> length (getValidCombinations (initializePersonas a b c d)) = 4"
proof (intro conjI ballI impI)
  show "getValidCombinations reg =
       map (\<lambda>(i, j). make_combination (getAllPersonas reg ! i) (getAllPersonas reg ! j))
         (filter (\<lambda>(i, j). politicalLeaning (getAllPersonas reg ! i)
                           \<noteq> politicalLeaning (getAllPersonas reg ! j))
            (index_pairs (length (getAllPersonas reg))))"
    using pairs_of_by_index [of "getAllPersonas reg"]
    by (simp add: getValidCombinations_pairs opposed_def)
  show "distinct (index_pairs (length (getAllPersonas reg)))"
    by (rule distinct_index_pairs)
  show "set (index_pairs (length (getAllPersonas reg)))
       = {(i, j). i < j \<and> j < length (getAllPersonas reg)}"
    by (rule set_index_pairs)
next
  show "length (getValidCombinations reg) =
     count_leaning LIBERAL (getAllPersonas reg) * count_leaning CONSERVATIVE (getAllPersonas reg)"
    by (simp add: getValidCombinations_pairs length_pairs_of)
next
  fix e assume e: "e \<in> set (getValidCombinations reg)"
  from pairs_of_members [of e "getAllPersonas reg"] e
  show "pc_persona1 e \<in> set (getAllPersonas reg)" "pc_persona2 e \<in> set (getAllPersonas reg)"
    "politicalLeaning (pc_persona1 e) \<noteq> politicalLeaning (pc_persona2 e)"
    by (simp_all add: getValidCombinations_pairs opposed_def)
next
  fix p q assume "p \<in> set (getAllPersonas reg)" "q \<in> set (getAllPersonas reg)"
    "politicalLeaning p \<noteq> politicalLeaning q"
  then show "\<exists>e \<in> set (getValidCombinations reg). pair_of e = {p, q}"
    using pairs_of_complete [of p "getAllPersonas reg" q]
    by (simp add: getValidCombinations_pairs opposed_def)
next
  assume "distinct (getAllPersonas reg)"
  then show "distinct (map pair_of (getValidCombinations reg))"
    by (simp add: getValidCombinations_pairs distinct_pairs_of)
next
  show "length (getValidCombinations (initializePersonas a b c d)) = 4"
    by (simp add: shipped_pairs)
qed

theorem getValidCombinations_complete_witness:
  "distinct (getAllPersonas (initializePersonas [] [] [] []))
   \<and> distinct (map pair_of (getValidCombinations (initializePersonas [] [] [] [])))
   \<and> maya_chen [] \<in> set (getAllPersonas (initializePersonas [] [] [] []))
   \<and> jordan_hale [] \<in> set (getAllPersonas (initializePersonas [] [] [] []))
   \<and> politicalLeaning (maya_chen []) \<noteq> politicalLeaning (jordan_hale [])
   \<and> (\<exists>e \<in> set (getValidCombinations (initializePersonas [] [] [] [])).
         pair_of e = {maya_chen [], jordan_hale []})
   \<and> length (getValidCombinations (initializePersonas [] [] [] [])) = 2 * 2"
proof -
  let ?reg = "initializePersonas [] [] [] []"
  note inst = getValidCombinations_complete [of ?reg "[]" "[]" "[]" "[]"]
  have d: "distinct (getAllPersonas ?reg)"
    using shipped_distinct [of "[]" "[]" "[]" "[]"] by (simp add: getAllPersonas_shipped)
  have "distinct (getAllPersonas ?reg) \<longrightarrow> distinct (map pair_of (getValidCombinations ?reg))"
    using inst by (elim conjE)
  then have w1: "distinct (map pair_of (getValidCombinations ?reg))"
    using d by (rule mp)
  have m1: "maya_chen [] \<in> set (getAllPersonas ?reg)"
    and m2: "jordan_hale [] \<in> set (getAllPersonas ?reg)"
    by (simp_all add: getAllPersonas_shipped)
  have ne: "politicalLeaning (maya_chen []) \<noteq> politicalLeaning (jordan_hale [])"
    by simp
  have "\<forall>p \<in> set (getAllPersonas ?reg). \<forall>q \<in> set (getAllPersonas ?reg).
        politicalLeaning p \<noteq> politicalLeaning q \<longrightarrow>
          (\<exists>e \<in> set (getValidCombinations ?reg). pair_of e = {p, q})"
    using inst by (elim conjE)
  then have w2: "\<exists>e \<in> set (getValidCombinations ?reg). pair_of e = {maya_chen [], jordan_hale []}"
    using m1 m2 ne by blast
  have "length (getValidCombinations ?reg) = 4"
    using inst by (elim conjE)
  then have w3: "length (getValidCombinations ?reg) = 2 * 2" by simp
  show ?thesis using d w1 m1 m2 ne w2 w3 by (intro conjI)
qed

section \<open>The cost estimate\<close>

text \<open>
  Claim C5. For every token-usage record \<open>u\<close> and source count \<open>s\<close> the estimate is
  \<open>promptTokens u * 0.20 / 10^6 + completionTokens u * 0.50 / 10^6 + s * 0.025\<close>; it is
  linear in \<open>s\<close>: the estimate at \<open>s\<close> is the estimate at 0 plus \<open>s * 0.025\<close>; a usage
  with zero prompt and completion tokens and no source costs 0; and the estimate does
  not decrease when the prompt tokens, the completion tokens or the source count grow.
\<close>

theorem estimateCost_linear:
  "estimateCost (Some u) s =
      promptTokens u * 0.20 / 1000000 + completionTokens u * 0.50 / 1000000 + s * 0.025
   \<and> estimateCost (Some u) s = estimateCost (Some u) 0 + s * 0.025
   \<and> estimateCost (Some \<lparr> promptTokens = 0, completionTokens = 0, totalTokens = 0 \<rparr>) 0 = 0
   \<and> (promptTokens u \<le> promptTokens u' \<and> completionTokens u \<le> completionTokens u' \<and> s \<le> s'
        \<longrightarrow> estimateCost (Some u) s \<le> estimateCost (Some u') s')"
proof (intro conjI impI)
  show "estimateCost (Some u) s =
      promptTokens u * 0.20 / 1000000 + completionTokens u * 0.50 / 1000000 + s * 0.025"
    by (simp add: estimateCost_def)
  show "estimateCost (Some u) s = estimateCost (Some u) 0 + s * 0.025"
    by (simp add: estimateCost_def)
  show "estimateCost (Some \<lparr> promptTokens = 0, completionTokens = 0, totalTokens = 0 \<rparr>) 0 = 0"
    by (simp add: estimateCost_def)
next
  assume le: "promptTokens u \<le> promptTokens u' \<and> completionTokens u \<le> completionTokens u' \<and> s \<le> s'"
  have "promptTokens u * (0.20 / 1000000) \<le> promptTokens u' * (0.20 / 1000000)"
    using le by (intro mult_right_mono) simp_all
  moreover have "completionTokens u * (0.50 / 1000000) \<le> completionTokens u' * (0.50 / 1000000)"
    using le by (intro mult_right_mono) simp_all
  moreover have "s * 0.025 \<le> s' * 0.025"
    using le by simp
  ultimately show "estimateCost (Some u) s \<le> estimateCost (Some u') s'"
    by (simp add: estimateCost_def)
qed

theorem estimateCost_linear_witness:
  "estimateCost (Some \<lparr> promptTokens = 1000000, completionTokens = 2000000, totalTokens = 3000000 \<rparr>) 4
     = 1.3
   \<and> estimateCost (Some \<lparr> promptTokens = 1000000, completionTokens = 2000000, totalTokens = 3000000 \<rparr>) 4
     \<le> estimateCost (Some \<lparr> promptTokens = 1000001, completionTokens = 2000000, totalTokens = 3000001 \<rparr>) 5"
  using estimateCost_linear [of
      "\<lparr> promptTokens = 1000000, completionTokens = 2000000, totalTokens = 3000000 \<rparr>" 4
      "\<lparr> promptTokens = 1000001, completionTokens = 2000000, totalTokens = 3000001 \<rparr>" 5]
  by simp

text \<open>
  Claim C10, as stated: with an absent usage the estimate is 0 for every source count,
  and so the cost is not monotonic in the source count there. The second half fails: a
  constant is monotonic, no two source counts are ordered one way and their estimates
  the other.
\<close>

theorem estimateCost_absent_usage_counterexample:
  "\<not> (\<exists>s s'. s \<le> s' \<and> estimateCost None s' < estimateCost None s)"
  by (simp add: estimateCost_def)

text \<open>
  Claim C10, amended. With an absent usage the estimate is 0 for every source count,
  also a positive one: the search cost of the sources is dropped. The estimate is then
  constant in the source count (so still non-decreasing), it is below the estimate of an
  all-zero usage record at every positive source count, and the linear law of the
  estimate, estimate at \<open>s\<close> = estimate at 0 plus \<open>s * 0.025\<close>, fails at every
  source count other than 0.
\<close>

theorem estimateCost_absent_usage:
  "estimateCost None s = 0
   \<and> (s \<le> s' \<longrightarrow> estimateCost None s \<le> estimateCost None s')
   \<and> (0 < s \<longrightarrow> estimateCost None s
         < estimateCost (Some \<lparr> promptTokens = 0, completionTokens = 0, totalTokens = 0 \<rparr>) s)
   \<and> (s \<noteq> 0 \<longrightarrow> estimateCost None s \<noteq> estimateCost None 0 + s * 0.025)"
  by (simp add: estimateCost_def)

theorem estimateCost_absent_usage_witness:
  "estimateCost None 3 = 0
   \<and> estimateCost None 3 \<le> estimateCost None 7
   \<and> estimateCost None 3
       < estimateCost (Some \<lparr> promptTokens = 0, completionTokens = 0, totalTokens = 0 \<rparr>) 3
   \<and> estimateCost None 3 \<noteq> estimateCost None 0 + 3 * 0.025"
  using estimateCost_absent_usage [of 3 7]
  by simp

section \<open>The model selection\<close>

lemma starts_with_iff: "starts_with s k \<longleftrightarrow> (\<exists>v. s = k @ v)"
  by (induction s k rule: starts_with.induct) auto

lemma str_includes_iff: "str_includes s k \<longleftrightarrow> (\<exists>u v. s = u @ k @ v)"
proof (induction s)
  case Nil
  show ?case by (auto simp: starts_with_iff)
next
  case (Cons c cs)
  show ?case
  proof
    assume "str_includes (c # cs) k"
    then consider "starts_with (c # cs) k" | "str_includes cs k" by auto
    then show "\<exists>u v. c # cs = u @ k @ v"
    proof cases
      case 1
      then obtain v where "c # cs = k @ v" by (auto simp: starts_with_iff)
      then have "c # cs = [] @ k @ v" by simp
      then show ?thesis by blast
    next
      case 2
      then obtain u v where "cs = u @ k @ v" using Cons.IH by auto
      then have "c # cs = (c # u) @ k @ v" by simp
      then show ?thesis by blast
    qed
  next
    assume "\<exists>u v. c # cs = u @ k @ v"
    then obtain u v where uv: "c # cs = u @ k @ v" by auto
    show "str_includes (c # cs) k"
    proof (cases u)
      case Nil
      then have "starts_with (c # cs) k" using uv by (auto simp: starts_with_iff)
      then show ?thesis by simp
    next
      case (Cons a u')
      then have "cs = u' @ k @ v" using uv by simp
      then have "str_includes cs k" using Cons.IH by auto
      then show ?thesis by simp
    qed
  qed
qed

lemma str_includes_set: "str_includes s k \<Longrightarrow> set k \<subseteq> set s"
  by (auto simp: str_includes_iff)

lemma str_includes_lower:
  "str_includes s k \<Longrightarrow> str_includes (toLowerCase s) (toLowerCase k)"
proof -
  assume "str_includes s k"
  then obtain u v where "s = u @ k @ v" by (auto simp: str_includes_iff)
  then have "toLowerCase s = toLowerCase u @ toLowerCase k @ toLowerCase v"
    by (simp add: toLowerCase_def)
  then show ?thesis unfolding str_includes_iff by blast
qed

lemma str_includes_append: "str_includes s k \<Longrightarrow> str_includes (s @ t) k"
proof -
  assume "str_includes s k"
  then obtain u v where "s = u @ k @ v" by (auto simp: str_includes_iff)
  then have "s @ t = u @ k @ (v @ t)" by simp
  then show ?thesis unfolding str_includes_iff by blast
qed

lemma lower_policy: "toLowerCase ''policy'' = ''policy''"
  by (simp add: toLowerCase_def lower_char_def)

lemma selectModel_keyword:
  "k \<in> set reasoningKeywords \<Longrightarrow> str_includes (combinedText topic context) k \<Longrightarrow>
     selectModel topic context = ''grok-4-fast-reasoning''"
  by (auto simp: selectModel_def list_ex_iff)

lemma selectModel_long:
  "100 < length (combinedText topic context) \<Longrightarrow>
     selectModel topic context = ''grok-4-fast-reasoning''"
  by (simp add: selectModel_def)

lemma lower_a: "lower_char (CHR ''a'') = CHR ''a''"
  by (simp add: lower_char_def)

lemma no_keyword_in_as:
  "\<not> list_ex (\<lambda>keyword. str_includes (replicate n (CHR ''a'')) keyword) reasoningKeywords"
proof -
  have "\<not> str_includes (replicate n (CHR ''a'')) k" if "\<not> set k \<subseteq> {CHR ''a''}" for k
  proof
    assume "str_includes (replicate n (CHR ''a'')) k"
    then have "set k \<subseteq> set (replicate n (CHR ''a''))" by (rule str_includes_set)
    then show False using that by (auto split: if_splits)
  qed
  then show ?thesis by (simp add: reasoningKeywords_def)
qed

text \<open>
  Claim C6, as stated: the reasoning model is chosen exactly when the lower-cased
  concatenation of topic and context contains a keyword or is longer than 100
  characters. The code puts one space between the two, also when the context is absent.
  A topic of 100 letters \<open>a\<close> with no context gets the reasoning model (the text has 101
  characters), where the concatenation has 100 characters and no keyword; and the topic
  \<open>pol\<close> with the context \<open>icy\<close> gets the fast model, where the concatenation
  contains \<open>policy\<close>.
\<close>

theorem selectModel_concatenation_counterexample:
  "selectModel (replicate 100 (CHR ''a'')) None = ''grok-4-fast-reasoning''
   \<and> claimed_selectModel (replicate 100 (CHR ''a'')) None = ''grok-4-fast''
   \<and> selectModel ''pol'' (Some ''icy'') = ''grok-4-fast''
   \<and> claimed_selectModel ''pol'' (Some ''icy'') = ''grok-4-fast-reasoning''"
proof (intro conjI)
  show "selectModel (replicate 100 (CHR ''a'')) None = ''grok-4-fast-reasoning''"
    by (rule selectModel_long) (simp add: combinedText_def toLowerCase_def)
  have "claimed_combinedText (replicate 100 (CHR ''a'')) None = replicate 100 (CHR ''a'')"
    by (simp add: claimed_combinedText_def toLowerCase_def lower_a)
  then show "claimed_selectModel (replicate 100 (CHR ''a'')) None = ''grok-4-fast''"
    by (simp add: claimed_selectModel_def no_keyword_in_as)
  show "selectModel ''pol'' (Some ''icy'') = ''grok-4-fast''"
    by (simp add: selectModel_def combinedText_def toLowerCase_def lower_char_def
        reasoningKeywords_def)
  show "claimed_selectModel ''pol'' (Some ''icy'') = ''grok-4-fast-reasoning''"
    by (simp add: claimed_selectModel_def claimed_combinedText_def toLowerCase_def lower_char_def
        reasoningKeywords_def)
qed

text \<open>
  Claim C6, amended. \<open>selectModel\<close> is a function of topic and context alone. Its
  combined text is the lower-cased string made of the topic, one space and the context
  (nothing when the context is absent; the space is there also then). The result is the
  reasoning model exactly when the combined text contains a keyword of the fixed set or
  is longer than 100 characters, and the fast model otherwise. A topic that contains
  \<open>policy\<close> gets the reasoning model, whatever its length and the context.
\<close>

theorem selectModel_iff:
  "(selectModel topic context = ''grok-4-fast-reasoning'' \<longleftrightarrow>
      (\<exists>k \<in> set reasoningKeywords. \<exists>u v. combinedText topic context = u @ k @ v)
      \<or> 100 < length (combinedText topic context))
   \<and> (selectModel topic context = ''grok-4-fast'' \<longleftrightarrow>
      \<not> ((\<exists>k \<in> set reasoningKeywords. \<exists>u v. combinedText topic context = u @ k @ v)
      \<or> 100 < length (combinedText topic context)))
   \<and> combinedText topic context =
       toLowerCase (topic @ '' '' @ (case context of None \<Rightarrow> [] | Some c \<Rightarrow> c))
   \<and> (str_includes topic ''policy'' \<longrightarrow> selectModel topic context = ''grok-4-fast-reasoning'')
   \<and> (topic = topic' \<and> context = context' \<longrightarrow> selectModel topic context = selectModel topic' context')"
proof (intro conjI impI)
  show "selectModel topic context = ''grok-4-fast-reasoning'' \<longleftrightarrow>
      (\<exists>k \<in> set reasoningKeywords. \<exists>u v. combinedText topic context = u @ k @ v)
      \<or> 100 < length (combinedText topic context)"
    by (simp add: selectModel_def list_ex_iff str_includes_iff)
  show "selectModel topic context = ''grok-4-fast'' \<longleftrightarrow>
      \<not> ((\<exists>k \<in> set reasoningKeywords. \<exists>u v. combinedText topic context = u @ k @ v)
      \<or> 100 < length (combinedText topic context))"
    by (simp add: selectModel_def list_ex_iff str_includes_iff)
  show "combinedText topic context =
       toLowerCase (topic @ '' '' @ (case context of None \<Rightarrow> [] | Some c \<Rightarrow> c))"
    by (simp add: combinedText_def)
next
  assume "str_includes topic ''policy''"
  then have "str_includes (toLowerCase topic) ''policy''"
    using str_includes_lower [of topic "''policy''"] by (simp add: lower_policy)
  then have "str_includes (combinedText topic context) ''policy''"
    by (simp add: combinedText_def toLowerCase_def str_includes_append)
  moreover have "''policy'' \<in> set reasoningKeywords"
    by (simp add: reasoningKeywords_def)
  ultimately show "selectModel topic context = ''grok-4-fast-reasoning''"
    by (rule selectModel_keyword [rotated])
next
  assume "topic = topic' \<and> context = context'"
  then show "selectModel topic context = selectModel topic' context'" by simp
qed

theorem selectModel_iff_witness:
  "str_includes ''Housing policy'' ''policy''
   \<and> selectModel ''Housing policy'' None = ''grok-4-fast-reasoning''
   \<and> ''policy'' \<in> set reasoningKeywords
   \<and> combinedText ''Housing policy'' None = ''housing '' @ ''policy'' @ '' ''
   \<and> selectModel ''Cats'' (Some ''dogs'') = ''grok-4-fast''"
proof -
  have inc: "str_includes ''Housing policy'' ''policy''" by simp
  have "selectModel ''Cats'' (Some ''dogs'') = ''grok-4-fast''"
    by code_simp
  moreover have "combinedText ''Housing policy'' None = ''housing '' @ ''policy'' @ '' ''"
    by code_simp
  moreover have "''policy'' \<in> set reasoningKeywords"
    by (simp add: reasoningKeywords_def)
  ultimately show ?thesis
    using inc selectModel_iff [of "''Housing policy''" None "''Housing policy''" None] by simp
qed

section \<open>The title of a response\<close>

lemma split_newline_not_Nil: "split_newline s \<noteq> []"
  by (induction s) (auto split: list.splits)

lemma join_split_newline: "join (split_newline s) [newline] = s"
proof (induction s)
  case Nil
  show ?case by simp
next
  case (Cons c cs)
  obtain l ls where sp: "split_newline cs = l # ls"
    using split_newline_not_Nil [of cs] by (cases "split_newline cs") auto
  show ?case
  proof (cases "c = newline")
    case True
    then show ?thesis using Cons sp by simp
  next
    case False
    then show ?thesis using Cons sp by (cases ls) auto
  qed
qed

lemma split_newline_lines: "l \<in> set (split_newline s) \<Longrightarrow> newline \<notin> set l"
proof (induction s arbitrary: l)
  case Nil
  then show ?case by simp
next
  case (Cons c cs)
  obtain l' ls where sp: "split_newline cs = l' # ls"
    using split_newline_not_Nil [of cs] by (cases "split_newline cs") auto
  show ?case
  proof (cases "c = newline")
    case True
    then show ?thesis using Cons sp by auto
  next
    case False
    then have "l = c # l' \<or> l \<in> set ls" using Cons.prems sp by auto
    then show ?thesis using Cons.IH [of l'] Cons.IH [of l] sp False by auto
  qed
qed

lemma trim_blank: "trim s = [] \<longleftrightarrow> (\<forall>c \<in> set s. is_space c)"
proof
  assume "trim s = []"
  then have "\<forall>c \<in> set (dropWhile is_space s). is_space c"
    by (simp add: trim_def dropWhile_eq_Nil_conv)
  then have "dropWhile is_space s = []"
    using hd_dropWhile [of is_space s] by (cases "dropWhile is_space s") auto
  then show "\<forall>c \<in> set s. is_space c"
    by (simp add: dropWhile_eq_Nil_conv)
next
  assume "\<forall>c \<in> set s. is_space c"
  then have d: "dropWhile is_space s = []"
    by (simp add: dropWhile_eq_Nil_conv)
  show "trim s = []"
    unfolding trim_def d by simp
qed

lemma extractTitle_loop_find:
  "extractTitle_loop ls =
     (case find (\<lambda>line. trim line \<noteq> []) ls of
        None \<Rightarrow> ''Untitled''
      | Some line \<Rightarrow> strip_heading (trim line))"
  by (induction ls) (simp_all add: Let_def)

text \<open>
  Claim C9: the title is the first line of the content that is not blank after trimming,
  with any leading heading markers stripped, and \<open>Untitled\<close> when there is no such
  line. The code strips the heading marker with the regular expression \<^verbatim>\<open>/^#\s*/\<close>,
  which removes one \<^verbatim>\<open>#\<close> only and misses the markers of the deeper headings: for the
  content \<^verbatim>\<open>## Overview\<close> the code gives the title \<^verbatim>\<open># Overview\<close>, where the claim
  gives \<^verbatim>\<open>Overview\<close>, and for \<^verbatim>\<open>### Costs\<close> it gives \<^verbatim>\<open>## Costs\<close>. For a first-level
  heading and for the empty content the code does what the claim says.
\<close>

theorem extractTitle_second_marker_kept:
  "extractTitle ''## Overview'' = ''# Overview''
   \<and> claimed_extractTitle ''## Overview'' = ''Overview''
   \<and> extractTitle ''### Costs'' = ''## Costs''
   \<and> claimed_extractTitle ''### Costs'' = ''Costs''
   \<and> extractTitle ''# Overview'' = ''Overview''
   \<and> claimed_extractTitle ''# Overview'' = ''Overview''
   \<and> extractTitle [] = ''Untitled''
   \<and> claimed_extractTitle [] = ''Untitled''"
  by code_simp

section \<open>The retry loop of the client\<close>

declare generate_loop.simps [simp del]

lemma generate_loop_step:
  "generate_loop c up ep b m us a le n =
     (if a < maxRetries c then
        (case attempt_result c up ep b m us n of
           Inr r \<Rightarrow> (Inr r, n + 1)
         | Inl e \<Rightarrow>
             if statusCode e = Some 429
             then generate_loop c up ep b m us (a + 1) (Some e) (n + 1)
             else (Inl e, n + 1))
      else (Inl (case le of None \<Rightarrow> Undefined | Some e \<Rightarrow> e), n))"
  by (subst generate_loop.simps)
    (auto simp: attempt_result_def makeRequest_def split: FetchOutcome.splits sum.splits)

lemma generate_loop_bound:
  "n \<le> snd (generate_loop c up ep b m us a le n)
   \<and> snd (generate_loop c up ep b m us a le n) \<le> n + (maxRetries c - a)"
proof (induction "maxRetries c - a" arbitrary: a le n)
  case 0
  then show ?case by (subst (1 2) generate_loop_step) simp
next
  case (Suc d)
  then have lt: "a < maxRetries c" and d: "d = maxRetries c - (a + 1)" by simp_all
  show ?case
  proof (cases "attempt_result c up ep b m us n")
    case (Inr r)
    then show ?thesis using lt by (subst (1 2) generate_loop_step) simp
  next
    case (Inl e)
    show ?thesis
    proof (cases "statusCode e = Some 429")
      case True
      have step: "generate_loop c up ep b m us a le n
                  = generate_loop c up ep b m us (a + 1) (Some e) (n + 1)"
        using lt Inl True by (subst generate_loop_step) simp
      from Suc.hyps(1) [OF d, where le = "Some e" and n = "n + 1"] show ?thesis
        using lt unfolding step by arith
    next
      case False
      then show ?thesis using lt Inl by (subst (1 2) generate_loop_step) simp
    qed
  qed
qed

lemma generate_loop_before:
  "n \<le> i \<Longrightarrow> i + 1 < snd (generate_loop c up ep b m us a le n) \<Longrightarrow>
     rate_limited (attempt_result c up ep b m us i)"
proof (induction "maxRetries c - a" arbitrary: a le n)
  case 0
  then show ?case by (subst (asm) generate_loop_step) simp
next
  case (Suc d)
  then have lt: "a < maxRetries c" and d: "d = maxRetries c - (a + 1)" by simp_all
  show ?case
  proof (cases "attempt_result c up ep b m us n")
    case (Inr r)
    then show ?thesis using lt Suc.prems by (subst (asm) generate_loop_step) simp
  next
    case (Inl e)
    show ?thesis
    proof (cases "statusCode e = Some 429")
      case True
      have step: "generate_loop c up ep b m us a le n
                  = generate_loop c up ep b m us (a + 1) (Some e) (n + 1)"
        using lt Inl True by (subst generate_loop_step) simp
      show ?thesis
      proof (cases "i = n")
        case True
        then show ?thesis using Inl \<open>statusCode e = Some 429\<close> by (simp add: rate_limited_def)
      next
        case False
        then have "n + 1 \<le> i" using Suc.prems(1) by simp
        then show ?thesis
          using Suc.hyps(1) [OF d, where le = "Some e" and n = "n + 1"] Suc.prems(2) by (simp add: step)
      qed
    next
      case False
      then show ?thesis using lt Inl Suc.prems by (subst (asm) generate_loop_step) simp
    qed
  qed
qed

lemma generate_loop_stop:
  "a + k < maxRetries c \<Longrightarrow>
   (\<forall>j<k. rate_limited (attempt_result c up ep b m us (n + j))) \<Longrightarrow>
   \<not> rate_limited (attempt_result c up ep b m us (n + k)) \<Longrightarrow>
     generate_loop c up ep b m us a le n = (attempt_result c up ep b m us (n + k), n + k + 1)"
proof (induction k arbitrary: a le n)
  case 0
  then show ?case
    by (subst generate_loop_step) (auto simp: rate_limited_def split: sum.splits)
next
  case (Suc k)
  have "rate_limited (attempt_result c up ep b m us (n + 0))"
    using Suc.prems(2) by blast
  then obtain e where e: "attempt_result c up ep b m us n = Inl e" "statusCode e = Some 429"
    by (auto simp: rate_limited_def split: sum.splits)
  have step: "generate_loop c up ep b m us a le n
              = generate_loop c up ep b m us (a + 1) (Some e) (n + 1)"
    using Suc.prems(1) e by (subst generate_loop_step) simp
  have "\<forall>j<k. rate_limited (attempt_result c up ep b m us (n + 1 + j))"
    using Suc.prems(2) by (metis Suc_less_eq add_Suc_shift add.commute plus_1_eq_Suc add_Suc_right)
  moreover have "\<not> rate_limited (attempt_result c up ep b m us (n + 1 + k))"
    using Suc.prems(3) by simp
  moreover have "a + 1 + k < maxRetries c" using Suc.prems(1) by simp
  ultimately show ?case
    using Suc.IH [where a = "a + 1" and n = "n + 1" and le = "Some e"] by (simp add: step)
qed

lemma generate_loop_exhausted:
  "a < maxRetries c \<Longrightarrow>
   (\<forall>j < maxRetries c - a. rate_limited (attempt_result c up ep b m us (n + j))) \<Longrightarrow>
     generate_loop c up ep b m us a le n
       = (attempt_result c up ep b m us (n + (maxRetries c - a) - 1), n + (maxRetries c - a))"
proof (induction "maxRetries c - a" arbitrary: a le n)
  case 0
  then show ?case by simp
next
  case (Suc d)
  then have d: "d = maxRetries c - (a + 1)" by simp
  have "rate_limited (attempt_result c up ep b m us (n + 0))"
    using Suc.prems(2) Suc.hyps(2) by (metis zero_less_Suc)
  then obtain e where e: "attempt_result c up ep b m us n = Inl e" "statusCode e = Some 429"
    by (auto simp: rate_limited_def split: sum.splits)
  have step: "generate_loop c up ep b m us a le n
              = generate_loop c up ep b m us (a + 1) (Some e) (n + 1)"
    using Suc.prems(1) e by (subst generate_loop_step) simp
  show ?case
  proof (cases d)
    case 0
    then have "maxRetries c = a + 1" using Suc.hyps(2) Suc.prems(1) by simp
    then show ?thesis
      using e by (simp add: step) (subst generate_loop_step, simp)
  next
    case (Suc d')
    then have lt: "a + 1 < maxRetries c" using d by simp
    have "\<forall>j < maxRetries c - (a + 1). rate_limited (attempt_result c up ep b m us (n + 1 + j))"
    proof (intro allI impI)
      fix j assume "j < maxRetries c - (a + 1)"
      then have "Suc j < maxRetries c - a" by simp
      then have "rate_limited (attempt_result c up ep b m us (n + Suc j))"
        using Suc.prems(2) by blast
      then show "rate_limited (attempt_result c up ep b m us (n + 1 + j))" by simp
    qed
    then show ?thesis
      using \<open>Suc d = maxRetries c - a\<close> Suc.hyps(1) [OF d lt, where le = "Some e" and n = "n + 1"] lt
      by (simp add: step)
  qed
qed

lemma rate_limited_iff:
  "rate_limited (attempt_result c up ep b m us i)
     \<longleftrightarrow> (\<exists>statusText errorBody. up i (baseUrl c @ ep) b = NotOk 429 statusText errorBody)"
  by (auto simp: rate_limited_def attempt_result_def makeRequest_def parseResponse_def Let_def
      split: FetchOutcome.splits sum.splits list.splits if_splits)

lemma timeout_not_retried:
  "up i (baseUrl c @ ep) b = Rejects ''AbortError'' message \<Longrightarrow>
     attempt_result c up ep b m us i = Inl (ApiError ''Request timeout'' (Some ''TIMEOUT'') None None)"
  by (simp add: attempt_result_def makeRequest_def)

lemma generate_as_loop:
  "generate client up n options =
     generate_loop client up ''/chat/completions'' (build_request options)
       (case go_model options of None \<Rightarrow> ''grok-4-fast'' | Some m \<Rightarrow> m)
       (case go_useSearch options of None \<Rightarrow> False | Some b \<Rightarrow> b) 0 None n"
  by (simp add: generate_def Let_def)

lemma three_429_attempts:
  "generate_attempt default_client three_429_then_ok 0 options k =
     (if k < 3 then Inl (ApiError ''API request failed: Too Many Requests'' None (Some 429) (Some []))
      else Inr \<lparr> content = ''Done'', usage = None,
                  model = (case go_model options of None \<Rightarrow> ''grok-4-fast'' | Some m \<Rightarrow> m),
                  sources = None, searchCost = None \<rparr>)"
  by (simp add: generate_attempt_def attempt_result_def makeRequest_def three_429_then_ok_def
      parseResponse_def json_reply_def js_or_def)

text \<open>
  Claim C4. Let a call of \<open>generate\<close> start after \<open>n\<close> calls of \<^verbatim>\<open>fetch\<close> and end
  with the result \<open>res\<close> after \<open>n'\<close> calls. It makes at most \<open>maxRetries\<close> attempts.
  Every attempt that is followed by another one failed with status code 429, and an
  attempt fails with status code 429 exactly when the upstream answered with the HTTP
  status 429; a timeout gives an error without a status code. The first attempt within
  the budget that is not rate limited ends the call: its error (or its response) is the
  result, and no further attempt is made. When all \<open>maxRetries\<close> attempts are rate
  limited, the result is the error of the last attempt, after exactly \<open>maxRetries\<close>
  attempts. The default of \<open>maxRetries\<close> is 3; with it, an upstream that answers 429
  three times and would then succeed makes the call fail with the third error after three
  calls of \<^verbatim>\<open>fetch\<close>.
\<close>

theorem generate_retry_budget:
  "generate client up n options = (res, n') \<Longrightarrow>
     n \<le> n' \<and> n' - n \<le> maxRetries client
     \<and> (\<forall>k. k + 1 < n' - n \<longrightarrow> rate_limited (generate_attempt client up n options k))
     \<and> (\<forall>k. rate_limited (generate_attempt client up n options k) \<longleftrightarrow>
           (\<exists>statusText errorBody.
              up (n + k) (baseUrl client @ ''/chat/completions'') (build_request options)
                = NotOk 429 statusText errorBody))
     \<and> (\<forall>k message.
           up (n + k) (baseUrl client @ ''/chat/completions'') (build_request options)
             = Rejects ''AbortError'' message \<longrightarrow>
           generate_attempt client up n options k
             = Inl (ApiError ''Request timeout'' (Some ''TIMEOUT'') None None))
     \<and> (\<forall>k. k < maxRetries client
           \<and> (\<forall>j<k. rate_limited (generate_attempt client up n options j))
           \<and> \<not> rate_limited (generate_attempt client up n options k) \<longrightarrow>
           res = generate_attempt client up n options k \<and> n' = n + k + 1)
     \<and> (0 < maxRetries client
         \<and> (\<forall>k < maxRetries client. rate_limited (generate_attempt client up n options k)) \<longrightarrow>
           res = generate_attempt client up n options (maxRetries client - 1)
           \<and> n' = n + maxRetries client)
     \<and> (\<forall>config c. newGrokClient config = Inr c \<and> cfg_maxRetries config = None
           \<longrightarrow> maxRetries c = 3)
     \<and> generate default_client three_429_then_ok 0 options
         = (Inl (ApiError ''API request failed: Too Many Requests'' None (Some 429) (Some [])), 3)"
proof -
  assume g: "generate client up n options = (res, n')"
  let ?ep = "''/chat/completions''"
  let ?b = "build_request options"
  let ?m = "case go_model options of None \<Rightarrow> ''grok-4-fast'' | Some m \<Rightarrow> m"
  let ?us = "case go_useSearch options of None \<Rightarrow> False | Some b \<Rightarrow> b"
  have loop: "generate_loop client up ?ep ?b ?m ?us 0 None n = (res, n')"
    using g by (simp add: generate_as_loop)
  have bound: "n \<le> n' \<and> n' - n \<le> maxRetries client"
    using generate_loop_bound [of n client up ?ep ?b ?m ?us 0 None] loop by auto
  have before: "\<forall>k. k + 1 < n' - n \<longrightarrow> rate_limited (generate_attempt client up n options k)"
  proof (intro allI impI)
    fix k assume "k + 1 < n' - n"
    then have "n + k + 1 < snd (generate_loop client up ?ep ?b ?m ?us 0 None n)"
      using loop by simp
    then show "rate_limited (generate_attempt client up n options k)"
      using generate_loop_before [of n "n + k" client up ?ep ?b ?m ?us 0 None]
      by (simp add: generate_attempt_def)
  qed
  have limited: "\<forall>k. rate_limited (generate_attempt client up n options k) \<longleftrightarrow>
           (\<exists>statusText errorBody. up (n + k) (baseUrl client @ ?ep) ?b
                = NotOk 429 statusText errorBody)"
    by (simp add: generate_attempt_def rate_limited_iff)
  have aborted: "\<forall>k message. up (n + k) (baseUrl client @ ?ep) ?b = Rejects ''AbortError'' message
           \<longrightarrow> generate_attempt client up n options k
             = Inl (ApiError ''Request timeout'' (Some ''TIMEOUT'') None None)"
    by (simp add: generate_attempt_def timeout_not_retried)
  have stop: "\<forall>k. k < maxRetries client
           \<and> (\<forall>j<k. rate_limited (generate_attempt client up n options j))
           \<and> \<not> rate_limited (generate_attempt client up n options k) \<longrightarrow>
           res = generate_attempt client up n options k \<and> n' = n + k + 1"
  proof (intro allI impI)
    fix k
    assume h: "k < maxRetries client
           \<and> (\<forall>j<k. rate_limited (generate_attempt client up n options j))
           \<and> \<not> rate_limited (generate_attempt client up n options k)"
    then have "generate_loop client up ?ep ?b ?m ?us 0 None n
                 = (attempt_result client up ?ep ?b ?m ?us (n + k), n + k + 1)"
      by (intro generate_loop_stop) (simp_all add: generate_attempt_def)
    then show "res = generate_attempt client up n options k \<and> n' = n + k + 1"
      using loop by (simp add: generate_attempt_def)
  qed
  have exhausted: "0 < maxRetries client
         \<and> (\<forall>k < maxRetries client. rate_limited (generate_attempt client up n options k)) \<longrightarrow>
           res = generate_attempt client up n options (maxRetries client - 1)
           \<and> n' = n + maxRetries client"
  proof
    assume h: "0 < maxRetries client
         \<and> (\<forall>k < maxRetries client. rate_limited (generate_attempt client up n options k))"
    then have "generate_loop client up ?ep ?b ?m ?us 0 None n
                 = (attempt_result client up ?ep ?b ?m ?us (n + (maxRetries client - 0) - 1),
                    n + (maxRetries client - 0))"
      by (intro generate_loop_exhausted) (simp_all add: generate_attempt_def)
    then show "res = generate_attempt client up n options (maxRetries client - 1)
           \<and> n' = n + maxRetries client"
      using loop h by (simp add: generate_attempt_def)
  qed
  have default: "\<forall>config c. newGrokClient config = Inr c \<and> cfg_maxRetries config = None
           \<longrightarrow> maxRetries c = 3"
    by (auto simp: newGrokClient_def Let_def split: if_splits)
  have "generate_loop default_client three_429_then_ok ?ep ?b ?m ?us 0 None 0
          = (attempt_result default_client three_429_then_ok ?ep ?b ?m ?us
               (0 + (maxRetries default_client - 0) - 1), 0 + (maxRetries default_client - 0))"
  proof (intro generate_loop_exhausted)
    show "0 < maxRetries default_client" by (simp add: default_client_def)
    show "\<forall>j<maxRetries default_client - 0.
            rate_limited (attempt_result default_client three_429_then_ok ?ep ?b ?m ?us (0 + j))"
      by (simp add: rate_limited_iff three_429_then_ok_def default_client_def)
  qed
  moreover have "maxRetries default_client = 3" by (simp add: default_client_def)
  moreover have "attempt_result default_client three_429_then_ok ?ep ?b ?m ?us 2
         = Inl (ApiError ''API request failed: Too Many Requests'' None (Some 429) (Some []))"
    by (simp add: attempt_result_def makeRequest_def three_429_then_ok_def)
  ultimately have scenario: "generate default_client three_429_then_ok 0 options
         = (Inl (ApiError ''API request failed: Too Many Requests'' None (Some 429) (Some [])), 3)"
    by (simp add: generate_as_loop)
  from bound have b1: "n \<le> n'" and b2: "n' - n \<le> maxRetries client" by simp_all
  show ?thesis
    using b1 b2 before limited aborted stop exhausted default scenario by (intro conjI)
qed

lemma limited_then_500_attempts:
  "generate_attempt default_client limited_then_500 0 options k =
     (if k = 0 then Inl (ApiError ''API request failed: Too Many Requests'' None (Some 429) (Some []))
      else Inl (ApiError ''API request failed: Internal Server Error'' None (Some 500) (Some [])))"
  by (simp add: generate_attempt_def attempt_result_def makeRequest_def limited_then_500_def)

theorem generate_retry_budget_witness:
  "newGrokClient default_config = Inr default_client
   \<and> three_429_then_ok 0 (baseUrl default_client @ ''/chat/completions'')
                (build_request (plain_options ''Hello'')) = NotOk 429 ''Too Many Requests'' []
   \<and> three_429_then_ok 1 (baseUrl default_client @ ''/chat/completions'')
                (build_request (plain_options ''Hello'')) = NotOk 429 ''Too Many Requests'' []
   \<and> three_429_then_ok 2 (baseUrl default_client @ ''/chat/completions'')
                (build_request (plain_options ''Hello'')) = NotOk 429 ''Too Many Requests'' []
   \<and> three_429_then_ok 3 (baseUrl default_client @ ''/chat/completions'')
                (build_request (plain_options ''Hello'')) = Json (json_reply ''Done'')
   \<and> generate default_client three_429_then_ok 0 (plain_options ''Hello'')
       = (Inl (ApiError ''API request failed: Too Many Requests'' None (Some 429) (Some [])), 3)
   \<and> generate default_client limited_then_500 0 (plain_options ''Hello'')
       = (Inl (ApiError ''API request failed: Internal Server Error'' None (Some 500) (Some [])), 2)
   \<and> rate_limited (generate_attempt default_client limited_then_500 0 (plain_options ''Hello'') 0)
   \<and> generate default_client always_timeout 0 (plain_options ''Hello'')
       = (Inl (ApiError ''Request timeout'' (Some ''TIMEOUT'') None None), 1)"
proof -
  let ?o = "plain_options ''Hello''"
  let ?g = "generate default_client three_429_then_ok 0 ?o"
  let ?h = "generate default_client limited_then_500 0 ?o"
  let ?t = "generate default_client always_timeout 0 ?o"
  have three: "maxRetries default_client = 3" by (simp add: default_client_def)
  have pair: "?g = (fst ?g, snd ?g)" by simp
  have "0 < maxRetries default_client
         \<and> (\<forall>k < maxRetries default_client.
               rate_limited (generate_attempt default_client three_429_then_ok 0 ?o k)) \<longrightarrow>
           fst ?g = generate_attempt default_client three_429_then_ok 0 ?o
                      (maxRetries default_client - 1)
           \<and> snd ?g = 0 + maxRetries default_client"
    using generate_retry_budget [OF pair] by (elim conjE)
  moreover have "0 < maxRetries default_client
         \<and> (\<forall>k < maxRetries default_client.
               rate_limited (generate_attempt default_client three_429_then_ok 0 ?o k))"
    by (simp add: three three_429_attempts rate_limited_def)
  ultimately have "fst ?g = generate_attempt default_client three_429_then_ok 0 ?o
                      (maxRetries default_client - 1)
           \<and> snd ?g = 0 + maxRetries default_client"
    by (rule mp)
  then have res: "?g
      = (Inl (ApiError ''API request failed: Too Many Requests'' None (Some 429) (Some [])), 3)"
    by (simp add: three three_429_attempts prod_eq_iff)
  have pair2: "?h = (fst ?h, snd ?h)" by simp
  note inst2 = generate_retry_budget [OF pair2]
  have "\<forall>k. k < maxRetries default_client
           \<and> (\<forall>j<k. rate_limited (generate_attempt default_client limited_then_500 0 ?o j))
           \<and> \<not> rate_limited (generate_attempt default_client limited_then_500 0 ?o k) \<longrightarrow>
           fst ?h = generate_attempt default_client limited_then_500 0 ?o k \<and> snd ?h = 0 + k + 1"
    using inst2 by (elim conjE)
  then have "1 < maxRetries default_client
           \<and> (\<forall>j<1. rate_limited (generate_attempt default_client limited_then_500 0 ?o j))
           \<and> \<not> rate_limited (generate_attempt default_client limited_then_500 0 ?o 1) \<longrightarrow>
           fst ?h = generate_attempt default_client limited_then_500 0 ?o 1 \<and> snd ?h = 0 + 1 + 1"
    by (rule spec)
  moreover have "1 < maxRetries default_client
           \<and> (\<forall>j<1. rate_limited (generate_attempt default_client limited_then_500 0 ?o j))
           \<and> \<not> rate_limited (generate_attempt default_client limited_then_500 0 ?o 1)"
    by (simp add: three limited_then_500_attempts rate_limited_def)
  ultimately have "fst ?h = generate_attempt default_client limited_then_500 0 ?o 1
      \<and> snd ?h = 0 + 1 + 1"
    by (rule mp)
  then have res2: "?h
      = (Inl (ApiError ''API request failed: Internal Server Error'' None (Some 500) (Some [])), 2)"
    by (simp add: limited_then_500_attempts prod_eq_iff)
  have "\<forall>k. k + 1 < snd ?h - 0 \<longrightarrow>
          rate_limited (generate_attempt default_client limited_then_500 0 ?o k)"
    using inst2 by (elim conjE)
  then have "0 + 1 < snd ?h - 0 \<longrightarrow>
          rate_limited (generate_attempt default_client limited_then_500 0 ?o 0)"
    by (rule spec)
  then have res3: "rate_limited (generate_attempt default_client limited_then_500 0 ?o 0)"
    using res2 by simp
  have pair3: "?t = (fst ?t, snd ?t)" by simp
  note inst3 = generate_retry_budget [OF pair3]
  have "\<forall>k message.
           always_timeout (0 + k) (baseUrl default_client @ ''/chat/completions'') (build_request ?o)
             = Rejects ''AbortError'' message \<longrightarrow>
           generate_attempt default_client always_timeout 0 ?o k
             = Inl (ApiError ''Request timeout'' (Some ''TIMEOUT'') None None)"
    using inst3 by (elim conjE)
  then have att: "generate_attempt default_client always_timeout 0 ?o 0
             = Inl (ApiError ''Request timeout'' (Some ''TIMEOUT'') None None)"
    by (simp add: always_timeout_def)
  have "\<forall>k. k < maxRetries default_client
           \<and> (\<forall>j<k. rate_limited (generate_attempt default_client always_timeout 0 ?o j))
           \<and> \<not> rate_limited (generate_attempt default_client always_timeout 0 ?o k) \<longrightarrow>
           fst ?t = generate_attempt default_client always_timeout 0 ?o k \<and> snd ?t = 0 + k + 1"
    using inst3 by (elim conjE)
  then have "0 < maxRetries default_client
           \<and> (\<forall>j<0. rate_limited (generate_attempt default_client always_timeout 0 ?o j))
           \<and> \<not> rate_limited (generate_attempt default_client always_timeout 0 ?o 0) \<longrightarrow>
           fst ?t = generate_attempt default_client always_timeout 0 ?o 0 \<and> snd ?t = 0 + 0 + 1"
    by (rule spec)
  moreover have "0 < maxRetries default_client
           \<and> (\<forall>j<0. rate_limited (generate_attempt default_client always_timeout 0 ?o j))
           \<and> \<not> rate_limited (generate_attempt default_client always_timeout 0 ?o 0)"
    by (simp add: three att rate_limited_def)
  ultimately have "fst ?t = generate_attempt default_client always_timeout 0 ?o 0
      \<and> snd ?t = 0 + 0 + 1"
    by (rule mp)
  then have res4: "?t = (Inl (ApiError ''Request timeout'' (Some ''TIMEOUT'') None None), 1)"
    by (simp add: att prod_eq_iff)
  have cl: "newGrokClient default_config = Inr default_client"
    by (simp add: newGrokClient_def default_config_def default_client_def js_or_def)
  have u0: "three_429_then_ok 0 (baseUrl default_client @ ''/chat/completions'')
                (build_request ?o) = NotOk 429 ''Too Many Requests'' []"
    and u1: "three_429_then_ok 1 (baseUrl default_client @ ''/chat/completions'')
                (build_request ?o) = NotOk 429 ''Too Many Requests'' []"
    and u2: "three_429_then_ok 2 (baseUrl default_client @ ''/chat/completions'')
                (build_request ?o) = NotOk 429 ''Too Many Requests'' []"
    and u3: "three_429_then_ok 3 (baseUrl default_client @ ''/chat/completions'')
                (build_request ?o) = Json (json_reply ''Done'')"
    by (simp_all add: three_429_then_ok_def)
  show ?thesis using cl u0 u1 u2 u3 res res2 res3 res4 by (intro conjI)
qed

section \<open>Voice enhancement\<close>

lemma generate_first:
  "0 < maxRetries c \<Longrightarrow> \<not> rate_limited (generate_attempt c up n options 0) \<Longrightarrow>
     generate c up n options = (generate_attempt c up n options 0, n + 1)"
  using generate_loop_stop [of 0 0 c up "''/chat/completions''" "build_request options"
      "case go_model options of None \<Rightarrow> ''grok-4-fast'' | Some m \<Rightarrow> m"
      "case go_useSearch options of None \<Rightarrow> False | Some b \<Rightarrow> b" n None]
  by (simp add: generate_as_loop generate_attempt_def)

lemma generate_monotone: "n \<le> snd (generate c up n options)"
  using generate_loop_bound [of n c up] by (simp add: generate_as_loop)

lemma generate_json:
  "0 < maxRetries c \<Longrightarrow>
   up n (baseUrl c @ ''/chat/completions'') (build_request options) = Json (json_reply t) \<Longrightarrow>
     generate c up n options
       = (Inr \<lparr> content = t, usage = None,
                 model = (case go_model options of None \<Rightarrow> ''grok-4-fast'' | Some m \<Rightarrow> m),
                 sources = None, searchCost = None \<rparr>, n + 1)"
proof -
  assume pos: "0 < maxRetries c"
    and up: "up n (baseUrl c @ ''/chat/completions'') (build_request options) = Json (json_reply t)"
  have a: "generate_attempt c up n options 0
     = Inr \<lparr> content = t, usage = None,
               model = (case go_model options of None \<Rightarrow> ''grok-4-fast'' | Some m \<Rightarrow> m),
               sources = None, searchCost = None \<rparr>"
    using up by (simp add: generate_attempt_def attempt_result_def makeRequest_def
        parseResponse_def json_reply_def js_or_def)
  have nr: "\<not> rate_limited (generate_attempt c up n options 0)"
    by (simp add: a rate_limited_def)
  show ?thesis using generate_first [OF pos nr] by (simp add: a)
qed

lemma generate_not_ok:
  "0 < maxRetries c \<Longrightarrow>
   up n (baseUrl c @ ''/chat/completions'') (build_request options) = NotOk st txt body \<Longrightarrow>
   st \<noteq> 429 \<Longrightarrow>
     generate c up n options
       = (Inl (ApiError (''API request failed: '' @ txt) None (Some st) (Some body)), n + 1)"
proof -
  assume pos: "0 < maxRetries c"
    and up: "up n (baseUrl c @ ''/chat/completions'') (build_request options) = NotOk st txt body"
    and st: "st \<noteq> 429"
  have a: "generate_attempt c up n options 0
     = Inl (ApiError (''API request failed: '' @ txt) None (Some st) (Some body))"
    using up by (simp add: generate_attempt_def attempt_result_def makeRequest_def)
  have nr: "\<not> rate_limited (generate_attempt c up n options 0)"
    using st by (simp add: a rate_limited_def)
  show ?thesis using generate_first [OF pos nr] by (simp add: a)
qed

lemma enhanceContent_cases:
  "enhanceContent client up n c persona b =
     (case generate client up n (enhancement_options (take (min 600 (length c)) c) persona b) of
        (Inr response, n') \<Rightarrow>
          if usable_excerpt (content response)
          then (Inr (content response @ drop (min 600 (length c)) c), n')
          else (Inr c, n')
      | (Inl error, n') \<Rightarrow> (Inr c, n'))"
  by (simp add: enhanceContent_def enhancement_options_def usable_excerpt_def Let_def
      split: prod.splits sum.splits)

lemma enhanceContent_returns:
  "\<exists>out. enhanceContent client up n c persona b
     = (Inr out, snd (generate client up n
          (enhancement_options (take (min 600 (length c)) c) persona b)))"
  by (simp add: enhanceContent_cases split: prod.splits sum.splits)

text \<open>
  Claim C8. \<open>enhanceContent\<close> sends the first \<open>min 600 (length c)\<close> characters of the
  content \<open>c\<close> and nothing else of it: two contents with the same first 600 characters
  give the same request. When the call of the model returns a text that is not empty and
  has more than 50 characters after trimming, the result is that text followed by the
  content from index \<open>min 600 (length c)\<close> on, so the part of the content behind the
  sample is kept as it is; in every other case (an error of the call, an empty or too
  short text) the result is the content \<open>c\<close> unchanged. The call never throws.
\<close>

theorem enhanceContent_frame:
  "generate client up n (enhancement_options (take (min 600 (length c)) c) persona b) = (res, n') \<Longrightarrow>
     enhanceContent client up n c persona b =
       (case res of
          Inr response \<Rightarrow>
            if content response \<noteq> [] \<and> 50 < length (trim (content response))
            then (Inr (content response @ drop (min 600 (length c)) c), n')
            else (Inr c, n')
        | Inl error \<Rightarrow> (Inr c, n'))
     \<and> take (min 600 (length c)) c = take 600 c
     \<and> (\<forall>c2. take 600 c2 = take 600 c \<longrightarrow>
           enhancement_options (take (min 600 (length c2)) c2) persona b
             = enhancement_options (take (min 600 (length c)) c) persona b)
     \<and> (\<forall>response. res = Inr response \<and> content response \<noteq> []
             \<and> 50 < length (trim (content response)) \<longrightarrow>
           (\<exists>out. enhanceContent client up n c persona b = (Inr out, n')
              \<and> take (length (content response)) out = content response
              \<and> drop (length (content response)) out = drop (min 600 (length c)) c))
     \<and> (\<not> (\<exists>response. res = Inr response \<and> content response \<noteq> []
             \<and> 50 < length (trim (content response))) \<longrightarrow>
           enhanceContent client up n c persona b = (Inr c, n'))"
proof -
  assume g: "generate client up n (enhancement_options (take (min 600 (length c)) c) persona b)
               = (res, n')"
  have cases: "enhanceContent client up n c persona b =
       (case res of
          Inr response \<Rightarrow>
            if content response \<noteq> [] \<and> 50 < length (trim (content response))
            then (Inr (content response @ drop (min 600 (length c)) c), n')
            else (Inr c, n')
        | Inl error \<Rightarrow> (Inr c, n'))"
    by (simp add: enhanceContent_cases g usable_excerpt_def split: sum.splits)
  have sample: "take (min 600 (length x)) x = take 600 x" for x :: string
    by (simp add: min_def)
  have same: "\<forall>c2. take 600 c2 = take 600 c \<longrightarrow>
           enhancement_options (take (min 600 (length c2)) c2) persona b
             = enhancement_options (take (min 600 (length c)) c) persona b"
    by (simp only: sample) simp
  have ok: "\<forall>response. res = Inr response \<and> content response \<noteq> []
             \<and> 50 < length (trim (content response)) \<longrightarrow>
           (\<exists>out. enhanceContent client up n c persona b = (Inr out, n')
              \<and> take (length (content response)) out = content response
              \<and> drop (length (content response)) out = drop (min 600 (length c)) c)"
    by (simp add: cases)
  have other: "\<not> (\<exists>response. res = Inr response \<and> content response \<noteq> []
             \<and> 50 < length (trim (content response))) \<longrightarrow>
           enhanceContent client up n c persona b = (Inr c, n')"
    by (auto simp: cases split: sum.splits)
  show ?thesis
    using cases sample [of c] same ok other by (intro conjI)
qed

lemma excerpt_usable: "usable_excerpt excerpt"
  unfolding usable_excerpt_def excerpt_def by code_simp

lemma always_excerpt_generate:
  "generate default_client always_excerpt n options
     = (Inr \<lparr> content = excerpt, usage = None,
               model = (case go_model options of None \<Rightarrow> ''grok-4-fast'' | Some m \<Rightarrow> m),
               sources = None, searchCost = None \<rparr>, n + 1)"
proof -
  have a: "generate_attempt default_client always_excerpt n options 0
     = Inr \<lparr> content = excerpt, usage = None,
               model = (case go_model options of None \<Rightarrow> ''grok-4-fast'' | Some m \<Rightarrow> m),
               sources = None, searchCost = None \<rparr>"
    by (simp add: generate_attempt_def attempt_result_def makeRequest_def always_excerpt_def
        parseResponse_def json_reply_def js_or_def excerpt_def)
  have pos: "0 < maxRetries default_client" by (simp add: default_client_def)
  have nr: "\<not> rate_limited (generate_attempt default_client always_excerpt n options 0)"
    by (simp add: a rate_limited_def)
  show ?thesis
    using generate_first [OF pos nr] by (simp add: a)
qed

theorem enhanceContent_frame_witness:
  "generate default_client always_excerpt 0
       (enhancement_options (take (min 600 (length (replicate 600 (CHR ''a'') @ ''The end.'')))
          (replicate 600 (CHR ''a'') @ ''The end.'')) (maya_chen []) 0.5)
     = (Inr \<lparr> content = excerpt, usage = None, model = ''grok-4-fast'', sources = None,
               searchCost = None \<rparr>, 1)
   \<and> excerpt \<noteq> [] \<and> 50 < length (trim excerpt)
   \<and> enhanceContent default_client always_excerpt 0 (replicate 600 (CHR ''a'') @ ''The end.'')
        (maya_chen []) 0.5 = (Inr (excerpt @ ''The end.''), 1)
   \<and> take 600 (replicate 600 (CHR ''a'') @ ''Fin.'') = take 600 (replicate 600 (CHR ''a'') @ ''The end.'')
   \<and> enhancement_options (take (min 600 (length (replicate 600 (CHR ''a'') @ ''Fin.'')))
          (replicate 600 (CHR ''a'') @ ''Fin.'')) (maya_chen []) 0.5
       = enhancement_options (take (min 600 (length (replicate 600 (CHR ''a'') @ ''The end.'')))
          (replicate 600 (CHR ''a'') @ ''The end.'')) (maya_chen []) 0.5
   \<and> generate default_client always_500 0
       (enhancement_options (take (min 600 (length ''Short post.'')) ''Short post.'')
          (maya_chen []) 0.5)
     = (Inl (ApiError ''API request failed: Internal Server Error'' None (Some 500) (Some [])), 1)
   \<and> enhanceContent default_client always_500 0 ''Short post.'' (maya_chen []) 0.5
       = (Inr ''Short post.'', 1)
   \<and> generate default_client always_padded 0
       (enhancement_options (take (min 600 (length ''Short post.'')) ''Short post.'')
          (maya_chen []) 0.5)
     = (Inr \<lparr> content = padded_reply, usage = None, model = ''grok-4-fast'', sources = None,
               searchCost = None \<rparr>, 1)
   \<and> length padded_reply = 55 \<and> length (trim padded_reply) = 45
   \<and> enhanceContent default_client always_padded 0 ''Short post.'' (maya_chen []) 0.5
       = (Inr ''Short post.'', 1)"
proof -
  let ?c = "replicate 600 (CHR ''a'') @ ''The end.''"
  let ?c2 = "replicate 600 (CHR ''a'') @ ''Fin.''"
  let ?s = "''Short post.''"
  have g: "generate default_client always_excerpt 0
       (enhancement_options (take (min 600 (length ?c)) ?c) (maya_chen []) 0.5)
     = (Inr \<lparr> content = excerpt, usage = None, model = ''grok-4-fast'', sources = None,
               searchCost = None \<rparr>, 1)"
    by (simp add: always_excerpt_generate) (simp add: enhancement_options_def)
  have u: "excerpt \<noteq> [] \<and> 50 < length (trim excerpt)"
    using excerpt_usable by (simp add: usable_excerpt_def)
  note inst = enhanceContent_frame [OF g]
  have "enhanceContent default_client always_excerpt 0 ?c (maya_chen []) 0.5 =
       (case (Inr \<lparr> content = excerpt, usage = None, model = ''grok-4-fast'', sources = None,
               searchCost = None \<rparr> :: Thrown + GrokResponse) of
          Inr response \<Rightarrow>
            if content response \<noteq> [] \<and> 50 < length (trim (content response))
            then (Inr (content response @ drop (min 600 (length ?c)) ?c), 1)
            else (Inr ?c, 1)
        | Inl error \<Rightarrow> (Inr ?c, 1))"
    using inst by (elim conjE)
  then have r1: "enhanceContent default_client always_excerpt 0 ?c (maya_chen []) 0.5
       = (Inr (excerpt @ ''The end.''), 1)"
    using u by simp
  have pre: "take 600 ?c2 = take 600 ?c" by simp
  have "\<forall>c2. take 600 c2 = take 600 ?c \<longrightarrow>
           enhancement_options (take (min 600 (length c2)) c2) (maya_chen []) 0.5
             = enhancement_options (take (min 600 (length ?c)) ?c) (maya_chen []) 0.5"
    using inst by (elim conjE)
  then have "take 600 ?c2 = take 600 ?c \<longrightarrow>
           enhancement_options (take (min 600 (length ?c2)) ?c2) (maya_chen []) 0.5
             = enhancement_options (take (min 600 (length ?c)) ?c) (maya_chen []) 0.5"
    by (rule spec)
  then have r2: "enhancement_options (take (min 600 (length ?c2)) ?c2) (maya_chen []) 0.5
             = enhancement_options (take (min 600 (length ?c)) ?c) (maya_chen []) 0.5"
    using pre by (rule mp)
  have f: "generate default_client always_500 0
       (enhancement_options (take (min 600 (length ?s)) ?s) (maya_chen []) 0.5)
     = (Inl (ApiError (''API request failed: '' @ ''Internal Server Error'') None (Some 500)
          (Some [])), 0 + 1)"
    by (rule generate_not_ok) (simp_all add: default_client_def always_500_def)
  have "\<not> (\<exists>response. (Inl (ApiError (''API request failed: '' @ ''Internal Server Error'') None
              (Some 500) (Some [])) :: Thrown + GrokResponse) = Inr response
             \<and> content response \<noteq> [] \<and> 50 < length (trim (content response))) \<longrightarrow>
           enhanceContent default_client always_500 0 ?s (maya_chen []) 0.5 = (Inr ?s, 0 + 1)"
    using enhanceContent_frame [OF f] by (elim conjE)
  then have r3: "enhanceContent default_client always_500 0 ?s (maya_chen []) 0.5 = (Inr ?s, 1)"
    by simp
  have f': "generate default_client always_500 0
       (enhancement_options (take (min 600 (length ?s)) ?s) (maya_chen []) 0.5)
     = (Inl (ApiError ''API request failed: Internal Server Error'' None (Some 500) (Some [])), 1)"
    using f by simp
  have pos: "0 < maxRetries default_client" by (simp add: default_client_def)
  have h: "generate default_client always_padded 0
       (enhancement_options (take (min 600 (length ?s)) ?s) (maya_chen []) 0.5)
     = (Inr \<lparr> content = padded_reply, usage = None,
               model = (case go_model (enhancement_options (take (min 600 (length ?s)) ?s)
                           (maya_chen []) 0.5) of None \<Rightarrow> ''grok-4-fast'' | Some m \<Rightarrow> m),
               sources = None, searchCost = None \<rparr>, 0 + 1)"
    by (rule generate_json [OF pos]) (simp add: always_padded_def)
  have len: "length padded_reply = 55" by (simp add: padded_reply_def)
  have tr: "length (trim padded_reply) = 45"
    unfolding padded_reply_def by code_simp
  have "enhanceContent default_client always_padded 0 ?s (maya_chen []) 0.5 =
       (case (Inr \<lparr> content = padded_reply, usage = None,
               model = (case go_model (enhancement_options (take (min 600 (length ?s)) ?s)
                           (maya_chen []) 0.5) of None \<Rightarrow> ''grok-4-fast'' | Some m \<Rightarrow> m),
               sources = None, searchCost = None \<rparr> :: Thrown + GrokResponse) of
          Inr response \<Rightarrow>
            if content response \<noteq> [] \<and> 50 < length (trim (content response))
            then (Inr (content response @ drop (min 600 (length ?s)) ?s), 0 + 1)
            else (Inr ?s, 0 + 1)
        | Inl error \<Rightarrow> (Inr ?s, 0 + 1))"
    using enhanceContent_frame [OF h] by (elim conjE)
  then have r4: "enhanceContent default_client always_padded 0 ?s (maya_chen []) 0.5 = (Inr ?s, 1)"
    by (simp add: tr)
  have h': "generate default_client always_padded 0
       (enhancement_options (take (min 600 (length ?s)) ?s) (maya_chen []) 0.5)
     = (Inr \<lparr> content = padded_reply, usage = None, model = ''grok-4-fast'', sources = None,
               searchCost = None \<rparr>, 1)"
    using h by (simp add: enhancement_options_def)
  show ?thesis using g u r1 pre r2 f' r3 h' len tr r4 by (intro conjI) simp_all
qed

section \<open>The persona pipeline and the debate\<close>

lemma generatePersonaResponse_fails:
  "generate client up n (primary_options persona topic context s b) = (Inl e, n') \<Longrightarrow>
     generatePersonaResponse client up n persona topic context s b now = (Inl e, n')"
  by (simp add: generatePersonaResponse_def primary_options_def Let_def)

lemma generatePersonaResponse_returns:
  "generate client up n (primary_options persona topic context s b) = (Inr g, n') \<Longrightarrow>
     \<exists>r m. generatePersonaResponse client up n persona topic context s b now = (Inr r, m)
       \<and> perspective r = politicalLeaning persona
       \<and> pi_id (pr_persona r) = personaId persona
       \<and> voiceEnhanced r = (500 < length (content g) \<and> 0.3 < b)
       \<and> (if 500 < length (content g) \<and> 0.3 < b
          then enhanceContent client up n' (content g) persona b = (Inr (pr_content r), m)
          else pr_content r = content g \<and> m = n')"
proof -
  assume g: "generate client up n (primary_options persona topic context s b) = (Inr g, n')"
  show ?thesis
  proof (cases "500 < length (content g) \<and> 0.3 < b")
    case True
    obtain out m where e: "enhanceContent client up n' (content g) persona b = (Inr out, m)"
      using enhanceContent_returns [of client up n' "content g" persona b] by blast
    show ?thesis
      using g True e
      by (simp add: generatePersonaResponse_def primary_options_def Let_def)
  next
    case False
    show ?thesis
      using g False
      by (auto simp: generatePersonaResponse_def primary_options_def Let_def)
  qed
qed

lemma generatePersonaResponse_identity:
  "generatePersonaResponse client up n persona topic context s b now = (Inr r, m) \<Longrightarrow>
     perspective r = politicalLeaning persona \<and> pi_id (pr_persona r) = personaId persona"
proof -
  assume r: "generatePersonaResponse client up n persona topic context s b now = (Inr r, m)"
  obtain res n' where g: "generate client up n (primary_options persona topic context s b) = (res, n')"
    by (cases "generate client up n (primary_options persona topic context s b)") auto
  show ?thesis
  proof (cases res)
    case (Inl e)
    then show ?thesis using generatePersonaResponse_fails [of client up n persona topic "context" s b e n' now] g r
      by simp
  next
    case (Inr gr)
    then show ?thesis
      using generatePersonaResponse_returns [of client up n persona topic "context" s b gr n' now] g r
      by auto
  qed
qed

lemma long_content_length: "length long_content = 501"
  by (simp add: long_content_def)

lemma default_client_retries: "0 < maxRetries default_client"
  by (simp add: default_client_def)

text \<open>
  Claim C1: when the content is longer than 500 characters, the bias level is above 0.3
  and the voice enhancement fails, the response keeps the generated content and its flag
  \<open>voiceEnhanced\<close> is false. The code keeps the content and does not throw, but it sets
  the flag to true: \<open>enhanceContent\<close> catches every failure itself and returns the
  original content, so the \<^verbatim>\<open>catch\<close> branch of \<open>generatePersonaResponse\<close> that would
  leave the flag false is never taken. Here the primary call returns 501 characters, the
  bias level is 0.5, and the call of the enhancer is answered with the status 500 (first
  upstream) or with a text of 6 characters (second upstream): the response has the
  original content and \<open>voiceEnhanced = True\<close>.
\<close>

theorem voiceEnhanced_after_failed_enhancement:
  "(\<exists>r. generatePersonaResponse default_client enhancer_fails 0 (maya_chen []) ''Rent control''
            None False 0.5 ''2025-01-01T00:00:00.000Z'' = (Inr r, 2)
        \<and> pr_content r = long_content \<and> voiceEnhanced r = True)
   \<and> generate default_client enhancer_fails 1
        (enhancement_options (take (min 600 (length long_content)) long_content) (maya_chen []) 0.5)
       = (Inl (ApiError ''API request failed: Internal Server Error'' None (Some 500) (Some [])), 2)
   \<and> (\<exists>r. generatePersonaResponse default_client enhancer_short 0 (maya_chen []) ''Rent control''
            None False 0.5 ''2025-01-01T00:00:00.000Z'' = (Inr r, 2)
        \<and> pr_content r = long_content \<and> voiceEnhanced r = True)
   \<and> generate default_client enhancer_short 1
        (enhancement_options (take (min 600 (length long_content)) long_content) (maya_chen []) 0.5)
       = (Inr \<lparr> content = ''Sorry.'', usage = None, model = ''grok-4-fast'', sources = None,
                 searchCost = None \<rparr>, 2)
   \<and> 500 < length long_content \<and> (0.3 :: real) < 0.5"
proof -
  let ?p = "maya_chen []"
  let ?eo = "enhancement_options (take (min 600 (length long_content)) long_content) ?p 0.5"
  let ?po = "primary_options ?p ''Rent control'' None False 0.5"
  let ?g = "\<lparr> content = long_content, usage = None, model = selectModel ''Rent control'' None,
              sources = None, searchCost = None \<rparr>"
  have passes: "500 < length (content ?g) \<and> (0.3 :: real) < 0.5"
    by (simp add: long_content_length)
  have p1: "generate default_client enhancer_fails 0 ?po = (Inr ?g, 0 + 1)"
    using generate_json [OF default_client_retries, of enhancer_fails 0 ?po long_content]
    by (simp add: enhancer_fails_def) (simp add: primary_options_def)
  have e1: "generate default_client enhancer_fails 1 ?eo
       = (Inl (ApiError ''API request failed: Internal Server Error'' None (Some 500) (Some [])), 2)"
    using generate_not_ok [OF default_client_retries, of enhancer_fails 1 ?eo 500
        "''Internal Server Error''" "[]"]
    by (simp add: enhancer_fails_def)
  have c1: "enhanceContent default_client enhancer_fails 1 long_content ?p 0.5 = (Inr long_content, 2)"
    unfolding enhanceContent_cases e1 by simp
  obtain r1 m1 where r1: "generatePersonaResponse default_client enhancer_fails 0 ?p ''Rent control''
            None False 0.5 ''2025-01-01T00:00:00.000Z'' = (Inr r1, m1)"
      "voiceEnhanced r1 = (500 < length (content ?g) \<and> (0.3 :: real) < 0.5)"
      "enhanceContent default_client enhancer_fails (0 + 1) (content ?g) ?p 0.5 = (Inr (pr_content r1), m1)"
    using generatePersonaResponse_returns [OF p1, of "''2025-01-01T00:00:00.000Z''"] passes
    by auto
  have first: "\<exists>r. generatePersonaResponse default_client enhancer_fails 0 ?p ''Rent control''
            None False 0.5 ''2025-01-01T00:00:00.000Z'' = (Inr r, 2)
        \<and> pr_content r = long_content \<and> voiceEnhanced r = True"
    using r1 c1 passes by auto
  have p2: "generate default_client enhancer_short 0 ?po = (Inr ?g, 0 + 1)"
    using generate_json [OF default_client_retries, of enhancer_short 0 ?po long_content]
    by (simp add: enhancer_short_def) (simp add: primary_options_def)
  have e2: "generate default_client enhancer_short 1 ?eo
       = (Inr \<lparr> content = ''Sorry.'', usage = None, model = ''grok-4-fast'', sources = None,
                 searchCost = None \<rparr>, 2)"
    using generate_json [OF default_client_retries, of enhancer_short 1 ?eo "''Sorry.''"]
    by (simp add: enhancer_short_def) (simp add: enhancement_options_def)
  have short: "\<not> usable_excerpt ''Sorry.''"
    unfolding usable_excerpt_def by code_simp
  have c2: "enhanceContent default_client enhancer_short 1 long_content ?p 0.5 = (Inr long_content, 2)"
    unfolding enhanceContent_cases e2 using short by simp
  obtain r2 m2 where r2: "generatePersonaResponse default_client enhancer_short 0 ?p ''Rent control''
            None False 0.5 ''2025-01-01T00:00:00.000Z'' = (Inr r2, m2)"
      "voiceEnhanced r2 = (500 < length (content ?g) \<and> (0.3 :: real) < 0.5)"
      "enhanceContent default_client enhancer_short (0 + 1) (content ?g) ?p 0.5 = (Inr (pr_content r2), m2)"
    using generatePersonaResponse_returns [OF p2, of "''2025-01-01T00:00:00.000Z''"] passes
    by auto
  have second: "\<exists>r. generatePersonaResponse default_client enhancer_short 0 ?p ''Rent control''
            None False 0.5 ''2025-01-01T00:00:00.000Z'' = (Inr r, 2)
        \<and> pr_content r = long_content \<and> voiceEnhanced r = True"
    using r2 c2 passes by auto
  have len: "500 < length long_content" by (simp add: long_content_length)
  have bias: "(0.3 :: real) < 0.5" by simp
  show ?thesis using first e1 second e2 len bias by (intro conjI)
qed

lemma generateDebate_invalid:
  "\<not> validatePersonaPair reg (persona1Id config) (persona2Id config) \<Longrightarrow>
     generateDebate reg client up1 up2 first clock config
       = (Inl (JsError ''Error''
            ''Invalid persona selection: personas must be from opposing political sides''), 0, 0)"
  by (simp add: generateDebate_def)

lemma generateDebate_valid:
  "getPersona reg (persona1Id config) = Some p \<Longrightarrow>
   getPersona reg (persona2Id config) = Some q \<Longrightarrow>
   politicalLeaning p \<noteq> politicalLeaning q \<Longrightarrow>
   debate_pipeline client up1 p config (persona1 (debate_bias config)) (timestamp1 clock) = (r1, m1) \<Longrightarrow>
   debate_pipeline client up2 q config (persona2 (debate_bias config)) (timestamp2 clock) = (r2, m2) \<Longrightarrow>
   generateDebate reg client up1 up2 first clock config = (res, n1, n2) \<Longrightarrow>
     n1 = m1 \<and> n2 = m2
     \<and> (case (r1, r2) of
          (Inr a, Inr b) \<Rightarrow>
            (\<exists>d. res = Inr d
               \<and> personas d = \<lparr>
                    persona1 = \<lparr> ps_id = persona1Id config, ps_info = p, ps_content = a \<rparr>,
                    persona2 = \<lparr> ps_id = persona2Id config, ps_info = q, ps_content = b \<rparr> \<rparr>)
        | (Inl e1, Inr b) \<Rightarrow> res = Inl e1
        | (Inr a, Inl e2) \<Rightarrow> res = Inl e2
        | (Inl e1, Inl e2) \<Rightarrow> res = Inl (if first then e1 else e2))"
proof -
  assume p: "getPersona reg (persona1Id config) = Some p"
    and q: "getPersona reg (persona2Id config) = Some q"
    and pq: "politicalLeaning p \<noteq> politicalLeaning q"
    and r1: "debate_pipeline client up1 p config (persona1 (debate_bias config)) (timestamp1 clock) = (r1, m1)"
    and r2: "debate_pipeline client up2 q config (persona2 (debate_bias config)) (timestamp2 clock) = (r2, m2)"
    and g: "generateDebate reg client up1 up2 first clock config = (res, n1, n2)"
  have v: "validatePersonaPair reg (persona1Id config) (persona2Id config)"
    using p q pq by (simp add: validatePersonaPair_def getPersona_def)
  show ?thesis
  proof (cases r1)
    case a: (Inl e1)
    show ?thesis
    proof (cases r2)
      case (Inl e2)
      then show ?thesis
        using g v p q r1 r2 a
        by (simp add: generateDebate_def debate_pipeline_def debate_bias_def Let_def)
    next
      case (Inr b)
      then show ?thesis
        using g v p q r1 r2 a
        by (simp add: generateDebate_def debate_pipeline_def debate_bias_def Let_def)
    qed
  next
    case a: (Inr a')
    show ?thesis
    proof (cases r2)
      case (Inl e2)
      then show ?thesis
        using g v p q r1 r2 a
        by (simp add: generateDebate_def debate_pipeline_def debate_bias_def Let_def)
    next
      case (Inr b)
      then show ?thesis
        using g v p q r1 r2 a
        by (auto simp: generateDebate_def debate_pipeline_def debate_bias_def Let_def)
    qed
  qed
qed

text \<open>
  Claim C3. \<open>generateDebate\<close> is all or nothing. When a requested persona identifier
  does not resolve, or the two resolved profiles have the same leaning, the call fails and
  neither pipeline has called the upstream. Otherwise the call runs the two pipelines, and
  it returns a result exactly when both pipelines returned a response: the result then
  holds the two requested identifiers, the two profiles and the two responses, the first
  from the first pipeline and the second from the second; when a pipeline fails the call
  fails with the error of a failed pipeline and returns no result. So a returned result
  always holds two responses, one for each requested persona.
\<close>

theorem generateDebate_all_or_nothing:
  "generateDebate reg client up1 up2 first clock config = (res, n1, n2) \<Longrightarrow>
     ((getPersona reg (persona1Id config) = None \<or> getPersona reg (persona2Id config) = None
        \<or> (\<exists>p q. getPersona reg (persona1Id config) = Some p
              \<and> getPersona reg (persona2Id config) = Some q
              \<and> politicalLeaning p = politicalLeaning q))
       \<longrightarrow> (\<exists>e. res = Inl e) \<and> n1 = 0 \<and> n2 = 0)
     \<and> (\<forall>p q. getPersona reg (persona1Id config) = Some p
            \<and> getPersona reg (persona2Id config) = Some q
            \<and> politicalLeaning p \<noteq> politicalLeaning q \<longrightarrow>
          n1 = snd (debate_pipeline client up1 p config (persona1 (debate_bias config)) (timestamp1 clock))
          \<and> n2 = snd (debate_pipeline client up2 q config (persona2 (debate_bias config)) (timestamp2 clock))
          \<and> (case (fst (debate_pipeline client up1 p config (persona1 (debate_bias config))
                          (timestamp1 clock)),
                    fst (debate_pipeline client up2 q config (persona2 (debate_bias config))
                          (timestamp2 clock))) of
               (Inr a, Inr b) \<Rightarrow>
                 (\<exists>d. res = Inr d
                    \<and> personas d = \<lparr>
                         persona1 = \<lparr> ps_id = persona1Id config, ps_info = p, ps_content = a \<rparr>,
                         persona2 = \<lparr> ps_id = persona2Id config, ps_info = q, ps_content = b \<rparr> \<rparr>)
             | (Inl e1, Inr b) \<Rightarrow> res = Inl e1
             | (Inr a, Inl e2) \<Rightarrow> res = Inl e2
             | (Inl e1, Inl e2) \<Rightarrow> res = Inl (if first then e1 else e2)))
     \<and> (\<forall>d. res = Inr d \<longrightarrow>
          (\<exists>p q a b. getPersona reg (persona1Id config) = Some p
             \<and> getPersona reg (persona2Id config) = Some q
             \<and> politicalLeaning p \<noteq> politicalLeaning q
             \<and> fst (debate_pipeline client up1 p config (persona1 (debate_bias config))
                      (timestamp1 clock)) = Inr a
             \<and> fst (debate_pipeline client up2 q config (persona2 (debate_bias config))
                      (timestamp2 clock)) = Inr b
             \<and> ps_content (persona1 (personas d)) = a \<and> ps_content (persona2 (personas d)) = b
             \<and> ps_id (persona1 (personas d)) = persona1Id config
             \<and> ps_id (persona2 (personas d)) = persona2Id config
             \<and> perspective a = politicalLeaning p \<and> perspective b = politicalLeaning q
             \<and> pi_id (pr_persona a) = personaId p \<and> pi_id (pr_persona b) = personaId q))"
proof -
  assume g: "generateDebate reg client up1 up2 first clock config = (res, n1, n2)"
  let ?P1 = "\<lambda>p. debate_pipeline client up1 p config (persona1 (debate_bias config)) (timestamp1 clock)"
  let ?P2 = "\<lambda>q. debate_pipeline client up2 q config (persona2 (debate_bias config)) (timestamp2 clock)"
  have valid: "n1 = snd (?P1 p) \<and> n2 = snd (?P2 q)
          \<and> (case (fst (?P1 p), fst (?P2 q)) of
               (Inr a, Inr b) \<Rightarrow>
                 (\<exists>d. res = Inr d
                    \<and> personas d = \<lparr>
                         persona1 = \<lparr> ps_id = persona1Id config, ps_info = p, ps_content = a \<rparr>,
                         persona2 = \<lparr> ps_id = persona2Id config, ps_info = q, ps_content = b \<rparr> \<rparr>)
             | (Inl e1, Inr b) \<Rightarrow> res = Inl e1
             | (Inr a, Inl e2) \<Rightarrow> res = Inl e2
             | (Inl e1, Inl e2) \<Rightarrow> res = Inl (if first then e1 else e2))"
    if "getPersona reg (persona1Id config) = Some p" "getPersona reg (persona2Id config) = Some q"
      "politicalLeaning p \<noteq> politicalLeaning q" for p q
  proof -
    have e1: "?P1 p = (fst (?P1 p), snd (?P1 p))" by simp
    have e2: "?P2 q = (fst (?P2 q), snd (?P2 q))" by simp
    show ?thesis using generateDebate_valid [OF that e1 e2 g] by simp
  qed
  have invalid: "(getPersona reg (persona1Id config) = None \<or> getPersona reg (persona2Id config) = None
        \<or> (\<exists>p q. getPersona reg (persona1Id config) = Some p
              \<and> getPersona reg (persona2Id config) = Some q
              \<and> politicalLeaning p = politicalLeaning q))
       \<longrightarrow> (\<exists>e. res = Inl e) \<and> n1 = 0 \<and> n2 = 0"
  proof
    assume "getPersona reg (persona1Id config) = None \<or> getPersona reg (persona2Id config) = None
        \<or> (\<exists>p q. getPersona reg (persona1Id config) = Some p
              \<and> getPersona reg (persona2Id config) = Some q
              \<and> politicalLeaning p = politicalLeaning q)"
    then have "\<not> validatePersonaPair reg (persona1Id config) (persona2Id config)"
      by (auto simp: validatePersonaPair_def getPersona_def split: option.splits)
    then show "(\<exists>e. res = Inl e) \<and> n1 = 0 \<and> n2 = 0"
      using generateDebate_invalid [of reg config client up1 up2 first clock] g by simp
  qed
  have returned: "\<forall>d. res = Inr d \<longrightarrow>
          (\<exists>p q a b. getPersona reg (persona1Id config) = Some p
             \<and> getPersona reg (persona2Id config) = Some q
             \<and> politicalLeaning p \<noteq> politicalLeaning q
             \<and> fst (?P1 p) = Inr a \<and> fst (?P2 q) = Inr b
             \<and> ps_content (persona1 (personas d)) = a \<and> ps_content (persona2 (personas d)) = b
             \<and> ps_id (persona1 (personas d)) = persona1Id config
             \<and> ps_id (persona2 (personas d)) = persona2Id config
             \<and> perspective a = politicalLeaning p \<and> perspective b = politicalLeaning q
             \<and> pi_id (pr_persona a) = personaId p \<and> pi_id (pr_persona b) = personaId q)"
  proof (intro allI impI)
    fix d assume d: "res = Inr d"
    have v: "validatePersonaPair reg (persona1Id config) (persona2Id config)"
      using generateDebate_invalid [of reg config client up1 up2 first clock] g d by auto
    then obtain p q where pq: "getPersona reg (persona1Id config) = Some p"
        "getPersona reg (persona2Id config) = Some q" "politicalLeaning p \<noteq> politicalLeaning q"
      by (auto simp: validatePersonaPair_def getPersona_def split: option.splits)
    note val = valid [OF pq]
    obtain a b where ab: "fst (?P1 p) = Inr a" "fst (?P2 q) = Inr b"
      using val d by (cases "fst (?P1 p)"; cases "fst (?P2 q)") auto
    have slots: "personas d = \<lparr>
                         persona1 = \<lparr> ps_id = persona1Id config, ps_info = p, ps_content = a \<rparr>,
                         persona2 = \<lparr> ps_id = persona2Id config, ps_info = q, ps_content = b \<rparr> \<rparr>"
      using val d ab by simp
    have ia: "perspective a = politicalLeaning p \<and> pi_id (pr_persona a) = personaId p"
      using ab(1) generatePersonaResponse_identity [of client up1 0 p "dc_topic config"
          "dc_context config" _ "persona1 (debate_bias config)" "timestamp1 clock" a "snd (?P1 p)"]
      by (simp add: debate_pipeline_def prod_eq_iff)
    have ib: "perspective b = politicalLeaning q \<and> pi_id (pr_persona b) = personaId q"
      using ab(2) generatePersonaResponse_identity [of client up2 0 q "dc_topic config"
          "dc_context config" _ "persona2 (debate_bias config)" "timestamp2 clock" b "snd (?P2 q)"]
      by (simp add: debate_pipeline_def prod_eq_iff)
    show "\<exists>p q a b. getPersona reg (persona1Id config) = Some p
             \<and> getPersona reg (persona2Id config) = Some q
             \<and> politicalLeaning p \<noteq> politicalLeaning q
             \<and> fst (?P1 p) = Inr a \<and> fst (?P2 q) = Inr b
             \<and> ps_content (persona1 (personas d)) = a \<and> ps_content (persona2 (personas d)) = b
             \<and> ps_id (persona1 (personas d)) = persona1Id config
             \<and> ps_id (persona2 (personas d)) = persona2Id config
             \<and> perspective a = politicalLeaning p \<and> perspective b = politicalLeaning q
             \<and> pi_id (pr_persona a) = personaId p \<and> pi_id (pr_persona b) = personaId q"
      using pq ab slots ia ib by (intro exI [of _ p] exI [of _ q] exI [of _ a] exI [of _ b]) simp
  qed
  from valid have valid': "\<forall>p q. getPersona reg (persona1Id config) = Some p
            \<and> getPersona reg (persona2Id config) = Some q
            \<and> politicalLeaning p \<noteq> politicalLeaning q \<longrightarrow>
          n1 = snd (?P1 p) \<and> n2 = snd (?P2 q)
          \<and> (case (fst (?P1 p), fst (?P2 q)) of
               (Inr a, Inr b) \<Rightarrow>
                 (\<exists>d. res = Inr d
                    \<and> personas d = \<lparr>
                         persona1 = \<lparr> ps_id = persona1Id config, ps_info = p, ps_content = a \<rparr>,
                         persona2 = \<lparr> ps_id = persona2Id config, ps_info = q, ps_content = b \<rparr> \<rparr>)
             | (Inl e1, Inr b) \<Rightarrow> res = Inl e1
             | (Inr a, Inl e2) \<Rightarrow> res = Inl e2
             | (Inl e1, Inl e2) \<Rightarrow> res = Inl (if first then e1 else e2))"
    by blast
  show ?thesis
    using invalid valid' returned by (intro conjI)
qed

lemma shipped_getPersona:
  "getPersona (initializePersonas a b c d) LIBERAL_GRASSROOTS = Some (alex_rivera a)"
  "getPersona (initializePersonas a b c d) LIBERAL_EXPERT = Some (maya_chen b)"
  "getPersona (initializePersonas a b c d) CONSERVATIVE_PATRIOT = Some (jordan_hale c)"
  "getPersona (initializePersonas a b c d) CONSERVATIVE_EXPERT = Some (michael_sterling d)"
  by (simp_all add: getPersona_def map_get_shipped LIBERAL_GRASSROOTS_def LIBERAL_EXPERT_def
      CONSERVATIVE_PATRIOT_def CONSERVATIVE_EXPERT_def)

lemma pipeline_always_excerpt:
  "\<exists>a. fst (debate_pipeline default_client always_excerpt p config bias stamp) = Inr a"
proof -
  obtain r m where "generatePersonaResponse default_client always_excerpt 0 p (dc_topic config)
      (dc_context config) (case useTwitterSearch config of None \<Rightarrow> True | Some b \<Rightarrow> b) bias stamp
      = (Inr r, m)"
    using generatePersonaResponse_returns [OF always_excerpt_generate] by blast
  then show ?thesis by (simp add: debate_pipeline_def)
qed

lemma pipeline_always_500:
  "fst (debate_pipeline default_client always_500 p config bias stamp)
     = Inl (ApiError ''API request failed: Internal Server Error'' None (Some 500) (Some []))"
proof -
  have "generate default_client always_500 0
          (primary_options p (dc_topic config) (dc_context config)
             (case useTwitterSearch config of None \<Rightarrow> True | Some b \<Rightarrow> b) bias)
        = (Inl (ApiError (''API request failed: '' @ ''Internal Server Error'') None (Some 500)
             (Some [])), 0 + 1)"
    by (rule generate_not_ok [OF default_client_retries]) (simp_all add: always_500_def)
  from generatePersonaResponse_fails [OF this] show ?thesis
    by (simp add: debate_pipeline_def)
qed

theorem generateDebate_all_or_nothing_witness:
  "(\<exists>e. fst (generateDebate (initializePersonas [] [] [] []) default_client always_excerpt
             always_excerpt True example_clock (example_config LIBERAL_GRASSROOTS LIBERAL_EXPERT))
          = Inl e)
   \<and> snd (generateDebate (initializePersonas [] [] [] []) default_client always_excerpt
             always_excerpt True example_clock (example_config LIBERAL_GRASSROOTS LIBERAL_EXPERT))
       = (0, 0)
   \<and> (\<exists>d. fst (generateDebate (initializePersonas [] [] [] []) default_client always_excerpt
             always_excerpt True example_clock (example_config LIBERAL_EXPERT CONSERVATIVE_EXPERT))
          = Inr d
        \<and> perspective (ps_content (persona1 (personas d))) = LIBERAL
        \<and> perspective (ps_content (persona2 (personas d))) = CONSERVATIVE)
   \<and> fst (generateDebate (initializePersonas [] [] [] []) default_client always_excerpt
             always_500 True example_clock (example_config LIBERAL_EXPERT CONSERVATIVE_EXPERT))
       = Inl (ApiError ''API request failed: Internal Server Error'' None (Some 500) (Some []))"
proof -
  let ?reg = "initializePersonas [] [] [] []"
  let ?same = "example_config LIBERAL_GRASSROOTS LIBERAL_EXPERT"
  let ?opp = "example_config LIBERAL_EXPERT CONSERVATIVE_EXPERT"
  let ?g1 = "generateDebate ?reg default_client always_excerpt always_excerpt True example_clock ?same"
  let ?g2 = "generateDebate ?reg default_client always_excerpt always_excerpt True example_clock ?opp"
  let ?g3 = "generateDebate ?reg default_client always_excerpt always_500 True example_clock ?opp"
  have ids: "persona1Id ?same = LIBERAL_GRASSROOTS" "persona2Id ?same = LIBERAL_EXPERT"
    "persona1Id ?opp = LIBERAL_EXPERT" "persona2Id ?opp = CONSERVATIVE_EXPERT"
    by (simp_all add: example_config_def)
  have e1: "?g1 = (fst ?g1, fst (snd ?g1), snd (snd ?g1))" by simp
  have same: "\<exists>p q. getPersona ?reg (persona1Id ?same) = Some p
              \<and> getPersona ?reg (persona2Id ?same) = Some q
              \<and> politicalLeaning p = politicalLeaning q"
    by (simp add: ids shipped_getPersona)
  have "(getPersona ?reg (persona1Id ?same) = None \<or> getPersona ?reg (persona2Id ?same) = None
        \<or> (\<exists>p q. getPersona ?reg (persona1Id ?same) = Some p
              \<and> getPersona ?reg (persona2Id ?same) = Some q
              \<and> politicalLeaning p = politicalLeaning q))
       \<longrightarrow> (\<exists>e. fst ?g1 = Inl e) \<and> fst (snd ?g1) = 0 \<and> snd (snd ?g1) = 0"
    using generateDebate_all_or_nothing [OF e1] by (elim conjE)
  then have w1: "(\<exists>e. fst ?g1 = Inl e) \<and> fst (snd ?g1) = 0 \<and> snd (snd ?g1) = 0"
    using same by blast
  then have w1a: "\<exists>e. fst ?g1 = Inl e" and w1b: "snd ?g1 = (0, 0)"
    by (simp_all add: prod_eq_iff)
  have e2: "?g2 = (fst ?g2, fst (snd ?g2), snd (snd ?g2))" by simp
  have opp: "getPersona ?reg (persona1Id ?opp) = Some (maya_chen [])
              \<and> getPersona ?reg (persona2Id ?opp) = Some (michael_sterling [])
              \<and> politicalLeaning (maya_chen []) \<noteq> politicalLeaning (michael_sterling [])"
    by (simp add: ids shipped_getPersona)
  have "\<forall>d. fst ?g2 = Inr d \<longrightarrow>
          (\<exists>p q a b. getPersona ?reg (persona1Id ?opp) = Some p
             \<and> getPersona ?reg (persona2Id ?opp) = Some q
             \<and> politicalLeaning p \<noteq> politicalLeaning q
             \<and> fst (debate_pipeline default_client always_excerpt p ?opp (persona1 (debate_bias ?opp))
                      (timestamp1 example_clock)) = Inr a
             \<and> fst (debate_pipeline default_client always_excerpt q ?opp (persona2 (debate_bias ?opp))
                      (timestamp2 example_clock)) = Inr b
             \<and> ps_content (persona1 (personas d)) = a \<and> ps_content (persona2 (personas d)) = b
             \<and> ps_id (persona1 (personas d)) = persona1Id ?opp
             \<and> ps_id (persona2 (personas d)) = persona2Id ?opp
             \<and> perspective a = politicalLeaning p \<and> perspective b = politicalLeaning q
             \<and> pi_id (pr_persona a) = personaId p \<and> pi_id (pr_persona b) = personaId q)"
    using generateDebate_all_or_nothing [OF e2] by (elim conjE)
  then have persp: "perspective (ps_content (persona1 (personas d))) = LIBERAL
        \<and> perspective (ps_content (persona2 (personas d))) = CONSERVATIVE" if "fst ?g2 = Inr d" for d
    using that opp by (auto simp: ids shipped_getPersona)
  obtain a b where ab:
    "fst (debate_pipeline default_client always_excerpt (maya_chen []) ?opp
            (persona1 (debate_bias ?opp)) (timestamp1 example_clock)) = Inr a"
    "fst (debate_pipeline default_client always_excerpt (michael_sterling []) ?opp
            (persona2 (debate_bias ?opp)) (timestamp2 example_clock)) = Inr b"
    using pipeline_always_excerpt by blast
  have "\<forall>p q. getPersona ?reg (persona1Id ?opp) = Some p
            \<and> getPersona ?reg (persona2Id ?opp) = Some q
            \<and> politicalLeaning p \<noteq> politicalLeaning q \<longrightarrow>
          fst (snd ?g2) = snd (debate_pipeline default_client always_excerpt p ?opp
                                 (persona1 (debate_bias ?opp)) (timestamp1 example_clock))
          \<and> snd (snd ?g2) = snd (debate_pipeline default_client always_excerpt q ?opp
                                 (persona2 (debate_bias ?opp)) (timestamp2 example_clock))
          \<and> (case (fst (debate_pipeline default_client always_excerpt p ?opp
                          (persona1 (debate_bias ?opp)) (timestamp1 example_clock)),
                    fst (debate_pipeline default_client always_excerpt q ?opp
                          (persona2 (debate_bias ?opp)) (timestamp2 example_clock))) of
               (Inr a, Inr b) \<Rightarrow>
                 (\<exists>d. fst ?g2 = Inr d
                    \<and> personas d = \<lparr>
                         persona1 = \<lparr> ps_id = persona1Id ?opp, ps_info = p, ps_content = a \<rparr>,
                         persona2 = \<lparr> ps_id = persona2Id ?opp, ps_info = q, ps_content = b \<rparr> \<rparr>)
             | (Inl e1, Inr b) \<Rightarrow> fst ?g2 = Inl e1
             | (Inr a, Inl e2) \<Rightarrow> fst ?g2 = Inl e2
             | (Inl e1, Inl e2) \<Rightarrow> fst ?g2 = Inl (if True then e1 else e2))"
    using generateDebate_all_or_nothing [OF e2] by (elim conjE)
  then have "\<exists>d. fst ?g2 = Inr d"
    using opp ab by (elim allE [of _ "maya_chen []"] allE [of _ "michael_sterling []"]) auto
  then have w2: "\<exists>d. fst ?g2 = Inr d
        \<and> perspective (ps_content (persona1 (personas d))) = LIBERAL
        \<and> perspective (ps_content (persona2 (personas d))) = CONSERVATIVE"
    using persp by blast
  have e3: "?g3 = (fst ?g3, fst (snd ?g3), snd (snd ?g3))" by simp
  have "\<forall>p q. getPersona ?reg (persona1Id ?opp) = Some p
            \<and> getPersona ?reg (persona2Id ?opp) = Some q
            \<and> politicalLeaning p \<noteq> politicalLeaning q \<longrightarrow>
          fst (snd ?g3) = snd (debate_pipeline default_client always_excerpt p ?opp
                                 (persona1 (debate_bias ?opp)) (timestamp1 example_clock))
          \<and> snd (snd ?g3) = snd (debate_pipeline default_client always_500 q ?opp
                                 (persona2 (debate_bias ?opp)) (timestamp2 example_clock))
          \<and> (case (fst (debate_pipeline default_client always_excerpt p ?opp
                          (persona1 (debate_bias ?opp)) (timestamp1 example_clock)),
                    fst (debate_pipeline default_client always_500 q ?opp
                          (persona2 (debate_bias ?opp)) (timestamp2 example_clock))) of
               (Inr a, Inr b) \<Rightarrow>
                 (\<exists>d. fst ?g3 = Inr d
                    \<and> personas d = \<lparr>
                         persona1 = \<lparr> ps_id = persona1Id ?opp, ps_info = p, ps_content = a \<rparr>,
                         persona2 = \<lparr> ps_id = persona2Id ?opp, ps_info = q, ps_content = b \<rparr> \<rparr>)
             | (Inl e1, Inr b) \<Rightarrow> fst ?g3 = Inl e1
             | (Inr a, Inl e2) \<Rightarrow> fst ?g3 = Inl e2
             | (Inl e1, Inl e2) \<Rightarrow> fst ?g3 = Inl (if True then e1 else e2))"
    using generateDebate_all_or_nothing [OF e3] by (elim conjE)
  then have w3: "fst ?g3
       = Inl (ApiError ''API request failed: Internal Server Error'' None (Some 500) (Some []))"
    using opp ab(1)
    by (elim allE [of _ "maya_chen []"] allE [of _ "michael_sterling []"])
      (auto simp: pipeline_always_500)
  show ?thesis using w1a w1b w2 w3 by (intro conjI)
qed

end
